theory Spec2Isabelle
  imports Complex_Main
begin

section \<open>The multilevel-atom susceptibilities of \<^verbatim>\<open>src/multilevel-atom.cpp\<close>\<close>

text \<open>
  The file implements two susceptibility classes, \<^verbatim>\<open>multilevel_susceptibility\<close> (radiative
  transitions only) and \<^verbatim>\<open>multilevel_nonlinear_susceptibility\<close> (with non-radiative
  coherences). The type \<^verbatim>\<open>realnum\<close> is idealised here as \<open>real\<close>: every statement
  below is about the formulas in exact arithmetic, not about rounding. Field components are
  numbered in the order in which \<^verbatim>\<open>FOR_COMPONENTS\<close> visits them, directions likewise.
\<close>

type_synonym realnum = real
type_synonym component = nat
type_synonym direction = nat

subsection \<open>Fatal errors\<close>

text \<open>Every call of \<^verbatim>\<open>abort\<close> in the file is a value of this type.\<close>

datatype error =
    LapackFailure
  | SingularMatrix
  | TooManyPolarizationComponents
  | InvalidAlpha nat
  | InvalidBeta nat
  | NondiagonalGain
  | FailedCorrespond
  | InvalidComplexIndex

fun foldM :: "('a \<Rightarrow> 's \<Rightarrow> error + 's) \<Rightarrow> 'a list \<Rightarrow> 's \<Rightarrow> error + 's" where
  "foldM f [] s = Inr s"
| "foldM f (x # xs) s = (case f x s of Inl e \<Rightarrow> Inl e | Inr s' \<Rightarrow> foldM f xs s')"

subsection \<open>What the headers declare\<close>

text \<open>
  \<^verbatim>\<open>meep.hpp\<close> and \<^verbatim>\<open>meep_internals.hpp\<close> are not part of the sources at hand.
  What the file uses of them is collected in a record and taken as a parameter by every
  function below: the number of field components and the loops over them, the sentinel
  components, the maps between components and directions, and the sizes and offsets the
  compiler gives to the two structs (in bytes). The static function \<^verbatim>\<open>invert\<close>
  (lines 89-116) is LAPACK's LU factorisation and inversion of a row-major matrix in place;
  its outcome is taken as given too: an abort, or the returned flag with the new contents
  of the matrix.
\<close>

datatype field_type = E_stuff | H_stuff | D_stuff | B_stuff

record meep_hpp =
  NUM_FIELD_COMPONENTS :: nat
  Dielectric :: component
  Centered :: component
  component_direction :: "component \<Rightarrow> direction"
  cycle_direction :: "nat \<Rightarrow> direction \<Rightarrow> nat \<Rightarrow> direction"
  direction_component :: "component \<Rightarrow> direction \<Rightarrow> component"
  field_type_component :: "field_type \<Rightarrow> component \<Rightarrow> component"
  FOR_FT_COMPONENTS :: "field_type \<Rightarrow> component list"
  invert :: "realnum list \<Rightarrow> nat \<Rightarrow> error + bool \<times> realnum list"
  sizeof_realnum :: nat
  sizeof_multilevel_data :: nat
  offsetof_data :: nat
  offsetof_extended_data :: nat

text \<open>\<^verbatim>\<open>FOR_COMPONENTS(c)\<close>, and \<^verbatim>\<open>FOR_COMPONENTS(c) DOCMP2\<close> with \<^verbatim>\<open>cmp\<close> in 0, 1.\<close>

definition FOR_COMPONENTS :: "meep_hpp \<Rightarrow> component list" where
  "FOR_COMPONENTS M = [0..<NUM_FIELD_COMPONENTS M]"

definition DOCMP2 :: "nat list" where
  "DOCMP2 = [0, 1]"

definition FOR_COMPONENTS_DOCMP2 :: "meep_hpp \<Rightarrow> (component \<times> nat) list" where
  "FOR_COMPONENTS_DOCMP2 M = concat (map (\<lambda>c. map (\<lambda>cmp. (c, cmp)) DOCMP2) (FOR_COMPONENTS M))"

text \<open>
  The field arrays \<^verbatim>\<open>realnum *W[NUM_FIELD_COMPONENTS][2]\<close>: a null pointer is \<open>None\<close>.
  They belong to the caller and are distinct from the internal data.
\<close>

type_synonym fields = "component \<Rightarrow> nat \<Rightarrow> realnum list option"

text \<open>
  Of \<^verbatim>\<open>grid_volume\<close> the file uses \<^verbatim>\<open>ntot()\<close>, \<^verbatim>\<open>dim\<close>, the two offset functions
  and the loop \<^verbatim>\<open>LOOP_OVER_VOL_OWNED(gv, c, i)\<close>, given here by the list of indices
  \<^verbatim>\<open>i\<close> it visits, in order.
\<close>

record grid_volume =
  gv_ntot :: nat
  dim :: nat
  yee2cent_offsets :: "component \<Rightarrow> int \<times> int"
  cent2yee_offsets :: "component \<Rightarrow> int \<times> int"
  LOOP_OVER_VOL_OWNED :: "component \<Rightarrow> nat list"

subsection \<open>The susceptibility objects\<close>

text \<open>
  The members set by the constructor (lines 28-47), together with the member \<^verbatim>\<open>sigma\<close>
  of the base class that \<^verbatim>\<open>update_P\<close> reads (\<^verbatim>\<open>sigma[c][d]\<close> is a pointer to a grid
  array or null) and the method \<^verbatim>\<open>needs_P\<close> of the base class, which is not in the file. The matrices are stored row-major in flat arrays, as in the source:
  \<^verbatim>\<open>Gamma[l1 * L + l2]\<close>, \<^verbatim>\<open>alpha[l * T + t]\<close>, \<^verbatim>\<open>sigmat[5 * t + d]\<close>.
\<close>

record multilevel_susceptibility =
  L :: nat
  T :: nat
  Gamma :: "realnum list"
  N0 :: "realnum list"
  alpha :: "realnum list"
  omega :: "realnum list"
  gamma :: "realnum list"
  sigmat :: "realnum list"
  sigma :: "component \<Rightarrow> direction \<Rightarrow> realnum list option"
  needs_P :: "component \<Rightarrow> nat \<Rightarrow> fields \<Rightarrow> bool"

text \<open>
  The extended class has the same members and those of the non-radiative transitions. Its
  \<^verbatim>\<open>update_P\<close> calls \<^verbatim>\<open>sign(cmp, k)\<close>, which the file does not define; it is a
  member here.
\<close>

record multilevel_nonlinear_susceptibility = multilevel_susceptibility +
  C :: nat
  beta :: "realnum list"
  gamma_decoherence :: "realnum list"
  omega_nonradiative :: "realnum list"
  sign :: "nat \<Rightarrow> nat \<Rightarrow> realnum"

subsection \<open>Which levels a transition couples\<close>

text \<open>
  Lines 334-338 and 770-774: \<^verbatim>\<open>int lp = -1, lm = -1; for (l...) { if (alpha[l*T+t] > 0) lp = l;
  if (alpha[l*T+t] < 0) lm = l; }\<close>.
\<close>

definition alpha_levels_step :: "'a multilevel_susceptibility_scheme \<Rightarrow> nat \<Rightarrow> nat \<Rightarrow> int \<times> int \<Rightarrow> int \<times> int" where
  "alpha_levels_step s t l = (\<lambda>(lp, lm).
     (if alpha s ! (l * T s + t) > 0 then int l else lp,
      if alpha s ! (l * T s + t) < 0 then int l else lm))"

definition alpha_levels :: "'a multilevel_susceptibility_scheme \<Rightarrow> nat \<Rightarrow> int \<times> int" where
  "alpha_levels s t = fold (alpha_levels_step s t) [0..<L s] (-1, -1)"

text \<open>
  Lines 673-677, the same loop over \<^verbatim>\<open>beta\<close>; the source assigns the literal
  \<^verbatim>\<open>1\<close> here: \<^verbatim>\<open>if (beta[l * C + crossection] > 0) lp = 1;
  if (beta[l * C + crossection] < 0) lm = 1;\<close>.
\<close>

definition beta_levels_step :: "'a multilevel_nonlinear_susceptibility_scheme \<Rightarrow> nat \<Rightarrow> nat \<Rightarrow> int \<times> int \<Rightarrow> int \<times> int" where
  "beta_levels_step s crossection l = (\<lambda>(lp, lm).
     (if beta s ! (l * C s + crossection) > 0 then 1 else lp,
      if beta s ! (l * C s + crossection) < 0 then 1 else lm))"

definition beta_levels :: "'a multilevel_nonlinear_susceptibility_scheme \<Rightarrow> nat \<Rightarrow> int \<times> int" where
  "beta_levels s crossection = fold (beta_levels_step s crossection) [0..<L s] (-1, -1)"

text \<open>A three-level medium with one non-radiative transition from level 0 down to level 2.\<close>

definition susc_three_level :: multilevel_nonlinear_susceptibility where
  "susc_three_level = \<lparr> L = 3, T = 0, Gamma = replicate 9 0, N0 = [1, 0, 0], alpha = [],
     omega = [], gamma = [], sigmat = [], sigma = (\<lambda>c d. None), needs_P = (\<lambda>c cmp W. False),
     C = 1, beta = [1, 0, -1], gamma_decoherence = [0], omega_nonradiative = [0],
     sign = (\<lambda>cmp k. if cmp = 0 \<and> k = 1 then -1 else 1) \<rparr>"

subsection \<open>From a pair of levels to the transition that connects them\<close>

text \<open>
  Lines 892-912. Both functions return the first transition whose column is non-zero at both
  levels (the local \<^verbatim>\<open>is_corresponded\<close>) and set the reference parameter; when there is
  none they return \<^verbatim>\<open>-1\<close> and leave the flag as it was. The model returns the pair of
  the result and the flag.
\<close>

definition radiative_connects :: "'a multilevel_susceptibility_scheme \<Rightarrow> int \<Rightarrow> int \<Rightarrow> nat \<Rightarrow> bool" where
  "radiative_connects s l1 l2 radiative =
     (alpha s ! nat (l1 * int (T s) + int radiative) \<noteq> 0
      \<and> alpha s ! nat (l2 * int (T s) + int radiative) \<noteq> 0)"

definition correspond_radiative_transition ::
  "'a multilevel_susceptibility_scheme \<Rightarrow> int \<Rightarrow> int \<Rightarrow> bool \<Rightarrow> int \<times> bool" where
  "correspond_radiative_transition s l1 l2 is_successfull =
     (case find (radiative_connects s l1 l2) [0..<T s] of
        Some radiative \<Rightarrow> (int radiative, True)
      | None \<Rightarrow> (-1, is_successfull))"

definition nonradiative_connects :: "'a multilevel_nonlinear_susceptibility_scheme \<Rightarrow> int \<Rightarrow> int \<Rightarrow> nat \<Rightarrow> bool" where
  "nonradiative_connects s l1 l2 nonradiative =
     (beta s ! nat (l1 * int (C s) + int nonradiative) \<noteq> 0
      \<and> beta s ! nat (l2 * int (C s) + int nonradiative) \<noteq> 0)"

definition correspond_nonradiative_transition ::
  "'a multilevel_nonlinear_susceptibility_scheme \<Rightarrow> int \<Rightarrow> int \<Rightarrow> bool \<Rightarrow> int \<times> bool" where
  "correspond_nonradiative_transition s l1 l2 is_successfull =
     (case find (nonradiative_connects s l1 l2) [0..<C s] of
        Some nonradiative \<Rightarrow> (int nonradiative, True)
      | None \<Rightarrow> (-1, is_successfull))"

subsection \<open>The internal data and the heap\<close>

text \<open>
  A \<^verbatim>\<open>realnum *\<close> is null or the address of a block and a signed element index into
  the \<^verbatim>\<open>data\<close> array at the end of that block; a \<^verbatim>\<open>realnumP *\<close> is null or the
  address of a table made by \<^verbatim>\<open>new realnumP[n]\<close>.
\<close>

datatype rptr = RNull | RPtr nat int

type_synonym tptr = "nat option"

fun ptr_add :: "rptr \<Rightarrow> int \<Rightarrow> rptr" where
  "ptr_add RNull n = RNull"
| "ptr_add (RPtr b k) n = RPtr b (k + n)"

text \<open>
  The struct \<^verbatim>\<open>multilevel_data\<close> (lines 119-128), with the array \<^verbatim>\<open>data\<close> as long as
  the allocation lets it be, and \<^verbatim>\<open>multilevel_extended_data\<close> (lines 405-419).
\<close>

record multilevel_data =
  sz_data :: nat
  ntot :: nat
  GammaInv :: rptr
  P :: "component \<Rightarrow> nat \<Rightarrow> tptr"
  P_prev :: "component \<Rightarrow> nat \<Rightarrow> tptr"
  N :: rptr
  Ntmp :: rptr
  data :: "realnum list"

record multilevel_extended_data = multilevel_data +
  V :: "nat \<Rightarrow> tptr"
  V_prev :: "nat \<Rightarrow> tptr"

record 'm heap =
  bufs :: "nat \<rightharpoonup> 'm"
  tabs :: "nat \<rightharpoonup> rptr list"
  brk :: nat

text \<open>Allocation hands out the next unused address.\<close>

definition malloc :: "'m heap \<Rightarrow> 'm \<Rightarrow> nat \<times> 'm heap" where
  "malloc h m = (brk h, h\<lparr>bufs := (bufs h)(brk h \<mapsto> m), brk := Suc (brk h)\<rparr>)"

definition new_realnumP :: "'m heap \<Rightarrow> rptr list \<Rightarrow> nat \<times> 'm heap" where
  "new_realnumP h tab = (brk h, h\<lparr>tabs := (tabs h)(brk h \<mapsto> tab), brk := Suc (brk h)\<rparr>)"



text \<open>
  Sizes are computed in \<^verbatim>\<open>size_t\<close>, taken to be 64 bits wide. A block of
  \<^verbatim>\<open>sz\<close> bytes whose array \<^verbatim>\<open>data\<close> starts at byte \<open>off\<close> holds
  \<open>(sz - off) div sizeof(realnum)\<close> elements.
\<close>

definition size_t :: "int \<Rightarrow> nat" where
  "size_t x = nat (x mod 2 ^ 64)"

definition data_capacity :: "nat \<Rightarrow> nat \<Rightarrow> nat \<Rightarrow> nat" where
  "data_capacity sr off sz = (sz - off) div sr"

subsection \<open>Sizing and slicing the buffer\<close>

text \<open>\<^verbatim>\<open>malloc\<close> followed by \<^verbatim>\<open>memset(d, 0, sz)\<close>: every field is zero or null.\<close>

definition zero_multilevel_data :: "nat \<Rightarrow> nat \<Rightarrow> multilevel_data" where
  "zero_multilevel_data sz cap =
     \<lparr> sz_data = sz, ntot = 0, GammaInv = RNull, P = (\<lambda>c cmp. None), P_prev = (\<lambda>c cmp. None),
       N = RNull, Ntmp = RNull, data = replicate cap 0 \<rparr>"

definition zero_multilevel_extended_data :: "nat \<Rightarrow> nat \<Rightarrow> multilevel_extended_data" where
  "zero_multilevel_extended_data sz cap =
     \<lparr> sz_data = sz, ntot = 0, GammaInv = RNull, P = (\<lambda>c cmp. None), P_prev = (\<lambda>c cmp. None),
       N = RNull, Ntmp = RNull, data = replicate cap 0, V = (\<lambda>cmp. None), V_prev = (\<lambda>cmp. None) \<rparr>"

text \<open>
  Lines 130-141. The number of elements asked for is
  \<^verbatim>\<open>L * L + L + gv.ntot() * L + num * T\<close>; one of them is the \<^verbatim>\<open>data[1]\<close> inside
  \<^verbatim>\<open>sizeof(multilevel_data)\<close>.
\<close>

definition new_internal_data ::
  "meep_hpp \<Rightarrow> 'a multilevel_susceptibility_scheme \<Rightarrow> fields \<Rightarrow> grid_volume \<Rightarrow>
     multilevel_data heap \<Rightarrow> nat \<times> multilevel_data heap" where
  "new_internal_data M s W gv h =
     (let num = fold (\<lambda>(c, cmp) num. if needs_P s c cmp W then num + 2 * gv_ntot gv else num)
                  (FOR_COMPONENTS_DOCMP2 M) 0;
          sz = size_t (int (sizeof_multilevel_data M) + int (sizeof_realnum M) *
                 (int (L s * L s + L s + gv_ntot gv * L s + num * T s) - 1))
      in malloc h (zero_multilevel_data sz (data_capacity (sizeof_realnum M) (offsetof_data M) sz)))"

text \<open>
  Lines 421-444. The size is computed from \<^verbatim>\<open>sizeof(multilevel_data)\<close> here too, and
  the block is used as a \<^verbatim>\<open>multilevel_extended_data\<close>.
\<close>

definition nonlinear_new_internal_data ::
  "meep_hpp \<Rightarrow> 'a multilevel_nonlinear_susceptibility_scheme \<Rightarrow> fields \<Rightarrow> grid_volume \<Rightarrow>
     multilevel_extended_data heap \<Rightarrow> nat \<times> multilevel_extended_data heap" where
  "nonlinear_new_internal_data M s W gv h =
     (let ntot' = gv_ntot gv;
          npol = fold (\<lambda>(c, cmp) npol. if needs_P s c cmp W then npol + ntot' else npol)
                   (FOR_COMPONENTS_DOCMP2 M) 0;
          P_size = 2 * npol * T s;
          V_size = 2 * ntot' * C s;
          N_size = (ntot' + 1) * L s;
          G_size = L s * L s;
          sz = size_t (int (sizeof_multilevel_data M) + int (sizeof_realnum M) *
                 (int (G_size + N_size + P_size + V_size) - 1))
      in malloc h (zero_multilevel_extended_data sz
                     (data_capacity (sizeof_realnum M) (offsetof_extended_data M) sz)))"

text \<open>
  The loops that fill the block. A write through a pointer into \<^verbatim>\<open>data\<close> is a list
  update at the element index.
\<close>

definition fill_GammaInv :: "'a multilevel_susceptibility_scheme \<Rightarrow> real \<Rightarrow> realnum list \<Rightarrow> realnum list" where
  "fill_GammaInv s dt dat =
     fold (\<lambda>i. fold (\<lambda>j dat. dat[i * L s + j := (if i = j then 1 else 0) + Gamma s ! (i * L s + j) * dt / 2])
                  [0..<L s])
       [0..<L s] dat"

definition write_block :: "realnum list \<Rightarrow> nat \<Rightarrow> realnum list \<Rightarrow> realnum list" where
  "write_block dat k xs = fold (\<lambda>j dat. dat[k + j := xs ! j]) [0..<length xs] dat"

definition fill_N :: "'a multilevel_susceptibility_scheme \<Rightarrow> nat \<Rightarrow> int \<Rightarrow> realnum list \<Rightarrow> realnum list" where
  "fill_N s ntot' Noff dat =
     fold (\<lambda>i. fold (\<lambda>l dat. dat[nat (Noff + int (i * L s + l)) := N0 s ! l]) [0..<L s])
       [0..<ntot'] dat"

text \<open>
  The loop \<^verbatim>\<open>for (t = 0; t < T; ++t) { tab[t] = P; tab_prev[t] = P_prev; P += 2 * ntot;
  P_prev += 2 * ntot; }\<close> of lines 169-174, 211-216, 477-482 and 530-535, and with
  \<^verbatim>\<open>V\<close> and \<^verbatim>\<open>C\<close> of lines 502-507 and 549-554. The cursors are element indices
  into the \<^verbatim>\<open>data\<close> of block \<open>d\<close>.
\<close>

definition slice_transitions :: "nat \<Rightarrow> nat \<Rightarrow> nat \<Rightarrow> int \<Rightarrow> int \<Rightarrow> rptr list \<times> rptr list \<times> int \<times> int" where
  "slice_transitions d n ntot' P0 P_prev0 =
     fold (\<lambda>t (tab, tab_prev, P, P_prev).
             (tab[t := RPtr d P], tab_prev[t := RPtr d P_prev], P + 2 * int ntot', P_prev + 2 * int ntot'))
       [0..<n] (replicate n RNull, replicate n RNull, P0, P_prev0)"

text \<open>
  The body of \<^verbatim>\<open>FOR_COMPONENTS(c) DOCMP2\<close> in lines 165-176 and 473-485 (where the test
  is \<^verbatim>\<open>needs_P(c, cmp, W)\<close>) and in lines 207-218 and 526-538 (where it is
  \<^verbatim>\<open>d->P[c][cmp]\<close> of the block copied from). The two tables are allocated, then filled.
  The last component of the state is the counter \<^verbatim>\<open>P_size\<close> of the extended class; the
  functions of the basic class do not have it and ignore it.
\<close>

definition slice_component ::
  "nat \<Rightarrow> nat \<Rightarrow> nat \<Rightarrow> (component \<Rightarrow> nat \<Rightarrow> bool) \<Rightarrow> component \<times> nat \<Rightarrow>
     ('a multilevel_data_scheme) heap \<times> 'a multilevel_data_scheme \<times> int \<times> int \<times> nat \<Rightarrow>
     ('a multilevel_data_scheme) heap \<times> 'a multilevel_data_scheme \<times> int \<times> int \<times> nat" where
  "slice_component d n ntot' stored = (\<lambda>(c, cmp) (h, m, P0, P_prev0, P_size).
     if stored c cmp then
       (let (tab, tab_prev, P1, P_prev1) = slice_transitions d n ntot' P0 P_prev0;
            (a, h1) = new_realnumP h tab;
            (a_prev, h2) = new_realnumP h1 tab_prev
        in (h2, m\<lparr>P := (P m)(c := (P m c)(cmp := Some a)),
                  P_prev := (P_prev m)(c := (P_prev m c)(cmp := Some a_prev))\<rparr>,
            P1, P_prev1, P_size + 2 * ntot' * n))
     else (h, m, P0, P_prev0, P_size))"

text \<open>Lines 143-185. The block \<open>d\<close> is assumed to be allocated.\<close>

definition init_internal_data ::
  "meep_hpp \<Rightarrow> 'a multilevel_susceptibility_scheme \<Rightarrow> fields \<Rightarrow> real \<Rightarrow> grid_volume \<Rightarrow>
     multilevel_data heap \<Rightarrow> nat \<Rightarrow> error + multilevel_data heap" where
  "init_internal_data M s W dt gv h d =
     (let d0 = the (bufs h d);
          ntot' = gv_ntot gv;
          d1 = (zero_multilevel_data (sz_data d0) (length (data d0)))\<lparr>ntot := ntot', GammaInv := RPtr d 0\<rparr>;
          dat = fill_GammaInv s dt (data d1)
      in case invert M (take (L s * L s) dat) (L s) of
           Inl e \<Rightarrow> Inl e
         | Inr (ok, S) \<Rightarrow>
             if \<not> ok then Inl SingularMatrix
             else
               (let d2 = d1\<lparr>data := write_block dat 0 S\<rparr>;
                    (h3, d3, P1, P_prev1, P_size) =
                       fold (slice_component d (T s) ntot' (\<lambda>c cmp. needs_P s c cmp W))
                         (FOR_COMPONENTS_DOCMP2 M)
                         (h, d2, int (L s * L s), int (L s * L s) + int ntot', 0);
                    d4 = d3\<lparr>Ntmp := RPtr d P1, N := RPtr d (P1 + int (L s))\<rparr>;
                    d5 = d4\<lparr>data := fill_N s ntot' (P1 + int (L s)) (data d4)\<rparr>
                in Inr (h3\<lparr>bufs := (bufs h3)(d \<mapsto> d5)\<rparr>)))"

text \<open>Lines 446-509.\<close>

definition nonlinear_init_internal_data ::
  "meep_hpp \<Rightarrow> 'a multilevel_nonlinear_susceptibility_scheme \<Rightarrow> fields \<Rightarrow> real \<Rightarrow> grid_volume \<Rightarrow>
     multilevel_extended_data heap \<Rightarrow> nat \<Rightarrow> error + multilevel_extended_data heap" where
  "nonlinear_init_internal_data M s W dt gv h d =
     (let d0 = the (bufs h d);
          ntot' = gv_ntot gv;
          d1 = (zero_multilevel_extended_data (sz_data d0) (length (data d0)))\<lparr>ntot := ntot', GammaInv := RPtr d 0\<rparr>;
          dat = fill_GammaInv s dt (data d1)
      in case invert M (take (L s * L s) dat) (L s) of
           Inl e \<Rightarrow> Inl e
         | Inr (ok, S) \<Rightarrow>
             if \<not> ok then Inl SingularMatrix
             else
               (let d2 = d1\<lparr>data := write_block dat 0 S\<rparr>;
                    G_size = L s * L s;
                    (h3, d3, P1, P_prev1, P_size) =
                       fold (slice_component d (T s) ntot' (\<lambda>c cmp. needs_P s c cmp W))
                         (FOR_COMPONENTS_DOCMP2 M)
                         (h, d2, int G_size, int G_size + int ntot', 0);
                    d4 = d3\<lparr>Ntmp := RPtr d (int (G_size + P_size)),
                            N := RPtr d (int (G_size + P_size) + int (L s))\<rparr>;
                    d5 = d4\<lparr>data := fill_N s ntot' (int (G_size + P_size) + int (L s)) (data d4)\<rparr>;
                    N_size = L s * (ntot' + 1);
                    (h6, d6, V1, V_prev1) =
                       fold (\<lambda>cmp (h, m, V0, V_prev0).
                               (let (tab, tab_prev, V1, V_prev1) = slice_transitions d (C s) ntot' V0 V_prev0;
                                    (a, h1) = new_realnumP h tab;
                                    (a_prev, h2) = new_realnumP h1 tab_prev
                                in (h2, m\<lparr>V := (V m)(cmp := Some a), V_prev := (V_prev m)(cmp := Some a_prev)\<rparr>,
                                    V1, V_prev1)))
                         DOCMP2
                         (h3, d5, int (G_size + P_size + N_size), int (G_size + P_size + N_size) + int ntot')
                in Inr (h6\<lparr>bufs := (bufs h6)(d \<mapsto> d6)\<rparr>)))"

text \<open>
  The sub-arrays that the convenience pointers denote, each with the number of elements the
  other functions read and write through it: \<^verbatim>\<open>GammaInv\<close> (\<open>L * L\<close>), \<^verbatim>\<open>Ntmp\<close>
  (\<open>L\<close>), \<^verbatim>\<open>N\<close> (\<open>ntot * L\<close>), and \<open>ntot\<close> for every entry of every table. A sub-array
  lies within the block \<open>d\<close> when its pointer is into \<open>d\<close> and all its elements are
  elements of the \<^verbatim>\<open>data\<close> of \<open>d\<close>.
\<close>

definition table_sub_arrays :: "'m heap \<Rightarrow> tptr \<Rightarrow> nat \<Rightarrow> (rptr \<times> nat) list" where
  "table_sub_arrays h t len = (case t of None \<Rightarrow> [] | Some a \<Rightarrow> map (\<lambda>p. (p, len)) (the (tabs h a)))"

definition sub_arrays ::
  "meep_hpp \<Rightarrow> 'a multilevel_susceptibility_scheme \<Rightarrow> ('b multilevel_data_scheme) heap \<Rightarrow> nat \<Rightarrow> (rptr \<times> nat) list" where
  "sub_arrays M s h d =
     (let m = the (bufs h d)
      in [(GammaInv m, L s * L s), (Ntmp m, L s), (N m, ntot m * L s)]
         @ concat (map (\<lambda>(c, cmp). table_sub_arrays h (P m c cmp) (ntot m)
                                    @ table_sub_arrays h (P_prev m c cmp) (ntot m))
                     (FOR_COMPONENTS_DOCMP2 M)))"

definition nonlinear_sub_arrays ::
  "meep_hpp \<Rightarrow> 'a multilevel_susceptibility_scheme \<Rightarrow> multilevel_extended_data heap \<Rightarrow> nat \<Rightarrow> (rptr \<times> nat) list" where
  "nonlinear_sub_arrays M s h d =
     (let m = the (bufs h d)
      in sub_arrays M s h d
         @ concat (map (\<lambda>cmp. table_sub_arrays h (V m cmp) (ntot m)
                               @ table_sub_arrays h (V_prev m cmp) (ntot m))
                     DOCMP2))"

fun lies_within :: "('b multilevel_data_scheme) heap \<Rightarrow> nat \<Rightarrow> rptr \<times> nat \<Rightarrow> bool" where
  "lies_within h d (RNull, len) = False"
| "lies_within h d (RPtr b k, len) = (b = d \<and> 0 \<le> k \<and> k + int len \<le> int (length (data (the (bufs h d)))))"

subsection \<open>A concrete build and concrete media\<close>

text \<open>
  A 64-bit build with \<^verbatim>\<open>realnum = double\<close> and twenty field components in four groups
  of five (E, H, D, B): the struct \<^verbatim>\<open>multilevel_data\<close> has two \<^verbatim>\<open>size_t\<close>, three
  \<^verbatim>\<open>realnum *\<close> and two tables of forty pointers before \<^verbatim>\<open>data\<close>, the extended struct
  four pointers more. Its \<^verbatim>\<open>invert\<close> is given for 1 x 1 and 2 x 2 matrices only.
\<close>

definition meep_64 :: meep_hpp where
  "meep_64 = \<lparr> NUM_FIELD_COMPONENTS = 20, Dielectric = 20, Centered = 20,
     component_direction = (\<lambda>c. c mod 5),
     cycle_direction = (\<lambda>dim d shift. (d + shift) mod 3),
     direction_component = (\<lambda>c d. 5 * (c div 5) + d),
     field_type_component = (\<lambda>ft c. (case ft of E_stuff \<Rightarrow> 0 | H_stuff \<Rightarrow> 5 | D_stuff \<Rightarrow> 10 | B_stuff \<Rightarrow> 15) + c mod 5),
     FOR_FT_COMPONENTS = (\<lambda>ft. case ft of E_stuff \<Rightarrow> [0..<5] | H_stuff \<Rightarrow> [5..<10]
                                  | D_stuff \<Rightarrow> [10..<15] | B_stuff \<Rightarrow> [15..<20]),
     invert = (\<lambda>S p.
        if p = 1 \<and> length S = 1
        then (if S = [0] then Inr (False, S) else Inr (True, map inverse S))
        else if p = 2 \<and> length S = 4
        then (let det = S ! 0 * S ! 3 - S ! 1 * S ! 2
              in if det = 0 then Inr (False, S)
                 else Inr (True, [S ! 3 / det, - (S ! 1) / det, - (S ! 2) / det, S ! 0 / det]))
        else Inl LapackFailure),
     sizeof_realnum = 8, sizeof_multilevel_data = 688, offsetof_data = 680,
     offsetof_extended_data = 712 \<rparr>"

definition empty_heap :: "'m heap" where
  "empty_heap = \<lparr> bufs = Map.empty, tabs = Map.empty, brk = 0 \<rparr>"

definition no_fields :: fields where
  "no_fields = (\<lambda>c cmp. None)"

text \<open>One level, no radiative transition, one non-radiative transition, a grid of one point.\<close>

definition susc_one_level :: multilevel_nonlinear_susceptibility where
  "susc_one_level = \<lparr> L = 1, T = 0, Gamma = [0], N0 = [1], alpha = [],
     omega = [], gamma = [], sigmat = [], sigma = (\<lambda>c d. None), needs_P = (\<lambda>c cmp W. False),
     C = 1, beta = [0], gamma_decoherence = [0], omega_nonradiative = [0],
     sign = (\<lambda>cmp k. if cmp = 0 \<and> k = 1 then -1 else 1) \<rparr>"

definition gv_one_point :: grid_volume where
  "gv_one_point = \<lparr> gv_ntot = 1, dim = 3, yee2cent_offsets = (\<lambda>c. (0, 0)),
     cent2yee_offsets = (\<lambda>c. (0, 0)), LOOP_OVER_VOL_OWNED = (\<lambda>c. [0]) \<rparr>"

text \<open>
  Two levels and one radiative transition from level 0 down to level 1, stored for the real
  and the imaginary part of component 0 when the field has them; a grid of four points with
  the two inner ones owned.
\<close>

definition susc_two_level :: multilevel_susceptibility where
  "susc_two_level = \<lparr> L = 2, T = 1, Gamma = [1, 0, -1, 0], N0 = [1, 0], alpha = [1, -1],
     omega = [1], gamma = [0], sigmat = [1, 1, 1, 1, 1],
     sigma = (\<lambda>c d. if c = 0 \<and> d = 0 then Some [1, 1, 1, 1] else None),
     needs_P = (\<lambda>c cmp W. c = 0 \<and> W c cmp \<noteq> None) \<rparr>"

definition gv_four_points :: grid_volume where
  "gv_four_points = \<lparr> gv_ntot = 4, dim = 3, yee2cent_offsets = (\<lambda>c. (1, 0)),
     cent2yee_offsets = (\<lambda>c. (-1, 0)), LOOP_OVER_VOL_OWNED = (\<lambda>c. [1, 2]) \<rparr>"

definition fields_Ex :: fields where
  "fields_Ex = (\<lambda>c cmp. if c = 0 then Some [1, 2, 3, 4] else None)"

text \<open>
  The heap that \<^verbatim>\<open>new_internal_data\<close> and \<^verbatim>\<open>init_internal_data\<close> make of the empty
  one for this medium, with time step 1: the block at address 0, whose \<^verbatim>\<open>data\<close> holds
  \<^verbatim>\<open>GammaInv\<close> (4 elements), the four polarization arrays of component 0 (4 each),
  \<^verbatim>\<open>Ntmp\<close> (2) and \<^verbatim>\<open>N\<close> (8), and the four tables at addresses 1 to 4.
\<close>

definition data_two_level :: multilevel_data where
  "data_two_level = \<lparr> sz_data = 920, ntot = 4, GammaInv = RPtr 0 0,
     P = (\<lambda>c cmp. if c = 0 \<and> cmp = 0 then Some 1 else if c = 0 \<and> cmp = 1 then Some 3 else None),
     P_prev = (\<lambda>c cmp. if c = 0 \<and> cmp = 0 then Some 2 else if c = 0 \<and> cmp = 1 then Some 4 else None),
     N = RPtr 0 22, Ntmp = RPtr 0 20,
     data = [2 / 3, 0, 1 / 3, 1] @ replicate 16 0 @ [0, 0] @ [1, 0, 1, 0, 1, 0, 1, 0] \<rparr>"

definition heap_two_level :: "multilevel_data heap" where
  "heap_two_level = \<lparr> bufs = [0 \<mapsto> data_two_level],
     tabs = [1 \<mapsto> [RPtr 0 4], 2 \<mapsto> [RPtr 0 8], 3 \<mapsto> [RPtr 0 12], 4 \<mapsto> [RPtr 0 16]],
     brk = 5 \<rparr>"

text \<open>The same heap some time steps later, with polarization and populations that are not zero.\<close>

definition heap_two_level_run :: "multilevel_data heap" where
  "heap_two_level_run = heap_two_level\<lparr>bufs := [0 \<mapsto> data_two_level\<lparr>data :=
     [2 / 3, 0, 1 / 3, 1] @ [1, 2, 3, 4] @ [0, 1, 2, 3] @ [5, 6, 7, 8] @ [4, 5, 6, 7] @ [0, 0]
     @ [1, 0, 3, 1, 2, 2, 1, 3]\<rparr>]\<rparr>"


subsection \<open>Handing polarization slices to the field solver\<close>

text \<open>Lines 224-236; the data pointer of \<^verbatim>\<open>num_cinternal_notowned_needed\<close> is dereferenced unchecked.\<close>

definition num_cinternal_notowned_needed ::
  "'a multilevel_susceptibility_scheme \<Rightarrow> multilevel_data heap \<Rightarrow> component \<Rightarrow> nat \<Rightarrow> int" where
  "num_cinternal_notowned_needed s h c P_internal_data =
     (let d = the (bufs h P_internal_data) in if P d c 0 \<noteq> None then int (T s) else 0)"

definition cinternal_notowned_ptr ::
  "'a multilevel_susceptibility_scheme \<Rightarrow> multilevel_data heap \<Rightarrow> int \<Rightarrow> component \<Rightarrow> nat \<Rightarrow> int \<Rightarrow>
     nat option \<Rightarrow> rptr" where
  "cinternal_notowned_ptr s h inotowned c cmp n P_internal_data =
     (case P_internal_data of
        None \<Rightarrow> RNull
      | Some d \<Rightarrow>
          (case P (the (bufs h d)) c cmp of
             None \<Rightarrow> RNull
           | Some tab \<Rightarrow>
               if inotowned < 0 \<or> inotowned \<ge> int (T s) then RNull
               else ptr_add (the (tabs h tab) ! nat inotowned) n))"

text \<open>Lines 575-588, the same two functions of the extended class.\<close>

definition nonlinear_num_cinternal_notowned_needed ::
  "'a multilevel_nonlinear_susceptibility_scheme \<Rightarrow> multilevel_extended_data heap \<Rightarrow> component \<Rightarrow> nat \<Rightarrow> int" where
  "nonlinear_num_cinternal_notowned_needed s h c P_internal_data =
     (let d = the (bufs h P_internal_data) in if P d c 0 \<noteq> None then int (T s) else 0)"

definition nonlinear_cinternal_notowned_ptr ::
  "'a multilevel_nonlinear_susceptibility_scheme \<Rightarrow> multilevel_extended_data heap \<Rightarrow> int \<Rightarrow> component \<Rightarrow> nat \<Rightarrow> int \<Rightarrow>
     nat option \<Rightarrow> rptr" where
  "nonlinear_cinternal_notowned_ptr s h inotowned c cmp n P_internal_data =
     (case P_internal_data of
        None \<Rightarrow> RNull
      | Some d \<Rightarrow>
          (case P (the (bufs h d)) c cmp of
             None \<Rightarrow> RNull
           | Some tab \<Rightarrow>
               if inotowned < 0 \<or> inotowned \<ge> int (T s) then RNull
               else ptr_add (the (tabs h tab) ! nat inotowned) n))"

subsection \<open>Reading and writing through pointers\<close>

text \<open>
  \<^verbatim>\<open>p[i]\<close> for a \<^verbatim>\<open>realnum *p\<close> into the \<^verbatim>\<open>data\<close> of a block. Dereferencing a null
  pointer is undefined in the source and has no equation here.
\<close>

fun rd :: "('b multilevel_data_scheme) heap \<Rightarrow> rptr \<Rightarrow> int \<Rightarrow> realnum" where
  "rd h (RPtr b k) i = data (the (bufs h b)) ! nat (k + i)"

fun wr :: "('b multilevel_data_scheme) heap \<Rightarrow> rptr \<Rightarrow> int \<Rightarrow> realnum \<Rightarrow> ('b multilevel_data_scheme) heap" where
  "wr h (RPtr b k) i v =
     h\<lparr>bufs := (bufs h)(b \<mapsto> (the (bufs h b))\<lparr>data := (data (the (bufs h b)))[nat (k + i) := v]\<rparr>)\<rparr>"

subsection \<open>Subtracting the polarization from the field\<close>









subsection \<open>\<^verbatim>\<open>update_P\<close>: the polarization oscillators\<close>

text \<open>
  Lines 326-381 of the basic class and lines 759-818 of the extended class are the same text
  (the extended one only splits some declarations over several lines); one model serves both.
  First the constants of transition \<open>t\<close> (lines 327-330), then the update of one grid
  point (lines 368-375), of one component and part (lines 342-379), of one transition
  (lines 333-380) and the loop over the transitions. An element of a field array is read
  with \<open>!\<close> at its index.
\<close>

definition omega0dtsqrCorrected :: "'a multilevel_susceptibility_scheme \<Rightarrow> real \<Rightarrow> nat \<Rightarrow> real" where
  "omega0dtsqrCorrected s dt t =
     (let omega2pi = 2 * pi * omega s ! t; gperp = gamma s ! t * pi
      in omega2pi * omega2pi * dt * dt + gperp * gperp * dt * dt)"

definition gamma1inv :: "'a multilevel_susceptibility_scheme \<Rightarrow> real \<Rightarrow> nat \<Rightarrow> real" where
  "gamma1inv s dt t = (let g2pi = gamma s ! t * 2 * pi; dt2 = 0.5 * dt in 1 / (1 + g2pi * dt2))"

definition gamma1 :: "'a multilevel_susceptibility_scheme \<Rightarrow> real \<Rightarrow> nat \<Rightarrow> real" where
  "gamma1 s dt t = (let g2pi = gamma s ! t * 2 * pi; dt2 = 0.5 * dt in 1 - g2pi * dt2)"

definition rdf :: "realnum list \<Rightarrow> int \<Rightarrow> realnum" where
  "rdf w k = w ! nat k"

definition update_P_point ::
  "'a multilevel_susceptibility_scheme \<Rightarrow> real \<Rightarrow> nat \<Rightarrow> int \<Rightarrow> int \<Rightarrow> rptr \<Rightarrow> rptr \<Rightarrow> rptr \<Rightarrow>
     realnum list \<Rightarrow> realnum list \<Rightarrow> real \<Rightarrow> int \<Rightarrow> int \<Rightarrow> nat \<Rightarrow>
     ('b multilevel_data_scheme) heap \<Rightarrow> ('b multilevel_data_scheme) heap" where
  "update_P_point s dt t lp lm p pp Np w sg st o1 o2 i h =
     (let dtsqr = dt * dt;
          pcur = rd h p (int i);
          Ni = ptr_add Np (int (i * L s));
          dNi = 0.25 * (rd h Ni lp + rd h Ni (lp + o1) + rd h Ni (lp + o2) + rd h Ni (lp + o1 + o2)
                        - rd h Ni lm - rd h Ni (lm + o1) - rd h Ni (lm + o2) - rd h Ni (lm + o1 + o2));
          h1 = wr h p (int i)
                 (gamma1inv s dt t * (pcur * (2 - omega0dtsqrCorrected s dt t) - gamma1 s dt t * rd h pp (int i)
                                      - dtsqr * (st * rdf sg (int i) * rdf w (int i)) * dNi))
      in wr h1 pp (int i) pcur)"

definition update_P_component ::
  "meep_hpp \<Rightarrow> 'a multilevel_susceptibility_scheme \<Rightarrow> fields \<Rightarrow> real \<Rightarrow> grid_volume \<Rightarrow> nat \<Rightarrow>
     nat \<Rightarrow> int \<Rightarrow> int \<Rightarrow> component \<times> nat \<Rightarrow>
     ('b multilevel_data_scheme) heap \<Rightarrow> error + ('b multilevel_data_scheme) heap" where
  "update_P_component M s W dt gv P_internal_data t lp lm = (\<lambda>(c, cmp) h.
     (let d = the (bufs h P_internal_data)
      in case P d c cmp of
           None \<Rightarrow> Inr h
         | Some tab \<Rightarrow>
             (let w = W c cmp;
                  sg = sigma s c (component_direction M c);
                  st = sigmat s ! (5 * t + component_direction M c)
              in if w \<noteq> None \<and> sg \<noteq> None then
                   (let p = the (tabs h tab) ! t;
                        pp = the (tabs h (the (P_prev d c cmp))) ! t;
                        o1 = fst (cent2yee_offsets gv c) * int (L s);
                        o2 = snd (cent2yee_offsets gv c) * int (L s);
                        dir = component_direction M c;
                        d1 = cycle_direction M (dim gv) dir 1;
                        c1 = direction_component M c d1;
                        w1 = W c1 cmp;
                        s1 = (if w1 \<noteq> None then sigma s c d1 else None);
                        d2 = cycle_direction M (dim gv) dir 2;
                        c2 = direction_component M c d2;
                        w2 = W c2 cmp;
                        s2 = (if w2 \<noteq> None then sigma s c d2 else None)
                    in if s1 \<noteq> None \<or> s2 \<noteq> None then Inl NondiagonalGain
                       else Inr (fold (update_P_point s dt t lp lm p pp (N d) (the w) (the sg) st o1 o2)
                                   (LOOP_OVER_VOL_OWNED gv c) h))
                 else Inr h)))"

definition update_P_transition ::
  "meep_hpp \<Rightarrow> 'a multilevel_susceptibility_scheme \<Rightarrow> fields \<Rightarrow> real \<Rightarrow> grid_volume \<Rightarrow> nat \<Rightarrow>
     nat \<Rightarrow> ('b multilevel_data_scheme) heap \<Rightarrow> error + ('b multilevel_data_scheme) heap" where
  "update_P_transition M s W dt gv P_internal_data t h =
     (let (lp, lm) = alpha_levels s t
      in if lp < 0 \<or> lm < 0 then Inl (InvalidAlpha t)
         else foldM (update_P_component M s W dt gv P_internal_data t lp lm) (FOR_COMPONENTS_DOCMP2 M) h)"

definition update_P_polarization ::
  "meep_hpp \<Rightarrow> 'a multilevel_susceptibility_scheme \<Rightarrow> fields \<Rightarrow> real \<Rightarrow> grid_volume \<Rightarrow> nat \<Rightarrow>
     ('b multilevel_data_scheme) heap \<Rightarrow> error + ('b multilevel_data_scheme) heap" where
  "update_P_polarization M s W dt gv P_internal_data h =
     foldM (update_P_transition M s W dt gv P_internal_data) [0..<T s] h"

subsection \<open>\<^verbatim>\<open>update_P\<close>: the populations\<close>

text \<open>
  Lines 245-254: the components whose polarization is stored, at most three, with their
  offsets; unused entries of \<^verbatim>\<open>cdot\<close> are \<^verbatim>\<open>Dielectric\<close>, unused entries of
  \<^verbatim>\<open>o1\<close> and \<^verbatim>\<open>o2\<close> are never read and are 0 here.
\<close>

definition pick_cdot ::
  "meep_hpp \<Rightarrow> grid_volume \<Rightarrow> 'b multilevel_data_scheme \<Rightarrow>
     error + component list \<times> int list \<times> int list \<times> nat" where
  "pick_cdot M gv d =
     foldM (\<lambda>c (cdot, o1, o2, idot).
              if P d c 0 \<noteq> None then
                if idot = 3 then Inl TooManyPolarizationComponents
                else Inr (cdot[idot := c], o1[idot := fst (yee2cent_offsets gv c)],
                          o2[idot := snd (yee2cent_offsets gv c)], idot + 1)
              else Inr (cdot, o1, o2, idot))
       (FOR_COMPONENTS M)
       ([Dielectric M, Dielectric M, Dielectric M], [0, 0, 0], [0, 0, 0], 0)"

text \<open>The loop header \<^verbatim>\<open>for (idot = 0; idot < 3 && cdot[idot] != Dielectric; ++idot)\<close>.\<close>

definition idots :: "meep_hpp \<Rightarrow> component list \<Rightarrow> nat list" where
  "idots M cdot = takeWhile (\<lambda>idot. cdot ! idot \<noteq> Dielectric M) [0..<3]"

text \<open>
  The sums over the four corners: of a field array (lines 274-275, 279-280) and of an array
  inside the internal data (lines 294-297, 303-306).
\<close>

definition corners_field :: "realnum list \<Rightarrow> nat \<Rightarrow> int \<Rightarrow> int \<Rightarrow> realnum" where
  "corners_field w i o1 o2 =
     rdf w (int i) + rdf w (int i + o1) + rdf w (int i + o2) + rdf w (int i + o1 + o2)"

definition corners :: "('b multilevel_data_scheme) heap \<Rightarrow> rptr \<Rightarrow> nat \<Rightarrow> int \<Rightarrow> int \<Rightarrow> realnum" where
  "corners h p i o1 o2 =
     rd h p (int i) + rd h p (int i + o1) + rd h p (int i + o2) + rd h p (int i + o1 + o2)"

text \<open>Lines 271-284: \<^verbatim>\<open>E8[idot][0]\<close> and \<^verbatim>\<open>E8[idot][1]\<close>.\<close>

definition E8 :: "fields \<Rightarrow> fields \<Rightarrow> component list \<Rightarrow> int list \<Rightarrow> int list \<Rightarrow> nat \<Rightarrow> nat \<Rightarrow> nat \<Rightarrow> real" where
  "E8 W W_prev cdot o1 o2 i idot cmp =
     (if cmp = 0 \<or> W (cdot ! idot) 1 \<noteq> None
      then corners_field (the (W (cdot ! idot) cmp)) i (o1 ! idot) (o2 ! idot)
           + corners_field (the (W_prev (cdot ! idot) cmp)) i (o1 ! idot) (o2 ! idot)
      else 0)"

text \<open>
  Lines 289-312: \<^verbatim>\<open>EdP32\<close> and \<^verbatim>\<open>EPave64\<close> of transition \<open>t\<close> at point \<open>i\<close>, after
  the scaling by 1/32 and 1/64.
\<close>

definition EdP32_EPave64 ::
  "meep_hpp \<Rightarrow> fields \<Rightarrow> fields \<Rightarrow> ('b multilevel_data_scheme) heap \<Rightarrow> 'b multilevel_data_scheme \<Rightarrow>
     component list \<Rightarrow> int list \<Rightarrow> int list \<Rightarrow> nat \<Rightarrow> nat \<Rightarrow> real \<times> real" where
  "EdP32_EPave64 M W W_prev h d cdot o1 o2 i t =
     (let (EdP32, EPave64) =
        fold (\<lambda>idot (EdP32, EPave64).
                (let p = the (tabs h (the (P d (cdot ! idot) 0))) ! t;
                     pp = the (tabs h (the (P_prev d (cdot ! idot) 0))) ! t;
                     dP = corners h p i (o1 ! idot) (o2 ! idot) - corners h pp i (o1 ! idot) (o2 ! idot);
                     Pave2 = corners h p i (o1 ! idot) (o2 ! idot) + corners h pp i (o1 ! idot) (o2 ! idot);
                     EdP32 = EdP32 + dP * E8 W W_prev cdot o1 o2 i idot 0;
                     EPave64 = EPave64 + Pave2 * E8 W W_prev cdot o1 o2 i idot 0
                 in if P d (cdot ! idot) 1 \<noteq> None then
                      (let p = the (tabs h (the (P d (cdot ! idot) 1))) ! t;
                           pp = the (tabs h (the (P_prev d (cdot ! idot) 1))) ! t;
                           dP = corners h p i (o1 ! idot) (o2 ! idot) - corners h pp i (o1 ! idot) (o2 ! idot);
                           Pave2 = corners h p i (o1 ! idot) (o2 ! idot) + corners h pp i (o1 ! idot) (o2 ! idot)
                       in (EdP32 + dP * E8 W W_prev cdot o1 o2 i idot 1,
                           EPave64 + Pave2 * E8 W W_prev cdot o1 o2 i idot 1))
                    else (EdP32, EPave64)))
          (idots M cdot) (0, 0)
      in (EdP32 * 0.03125, EPave64 * 0.015625))"

text \<open>
  Lines 260-323, the body of the loop over the grid points: \<^verbatim>\<open>Ntmp = (I - Gamma * dt/2) * N\<close>
  (lines 263-268), \<^verbatim>\<open>Ntmp += alpha * E * dP\<close> (lines 287-315) and
  \<^verbatim>\<open>N = GammaInv * Ntmp\<close> (lines 318-322), all through the pointers of the internal data.
\<close>

definition update_N_point ::
  "meep_hpp \<Rightarrow> 'a multilevel_susceptibility_scheme \<Rightarrow> fields \<Rightarrow> fields \<Rightarrow> real \<Rightarrow> nat \<Rightarrow>
     component list \<Rightarrow> int list \<Rightarrow> int list \<Rightarrow> nat \<Rightarrow>
     ('b multilevel_data_scheme) heap \<Rightarrow> ('b multilevel_data_scheme) heap" where
  "update_N_point M s W W_prev dt P_internal_data cdot o1 o2 i h0 =
     (let d = the (bufs h0 P_internal_data);
          dt2 = 0.5 * dt;
          Np = ptr_add (N d) (int (i * L s));
          h1 = fold (\<lambda>l1 h.
                  fold (\<lambda>l2 h. wr h (Ntmp d) (int l1)
                                  (rd h (Ntmp d) (int l1)
                                   + ((if l1 = l2 then 1 else 0) - Gamma s ! (l1 * L s + l2) * dt2) * rd h Np (int l2)))
                    [0..<L s] (wr h (Ntmp d) (int l1) 0))
                 [0..<L s] h0;
          h2 = fold (\<lambda>t h.
                  (let (EdP32, EPave64) = EdP32_EPave64 M W W_prev h d cdot o1 o2 i t;
                       gperpdt = gamma s ! t * pi * dt
                   in fold (\<lambda>l h. wr h (Ntmp d) (int l)
                                     (rd h (Ntmp d) (int l)
                                      + (alpha s ! (l * T s + t) * EdP32 + alpha s ! (l * T s + t) * gperpdt * EPave64)))
                        [0..<L s] h))
                 [0..<T s] h1
      in fold (\<lambda>l1 h.
            fold (\<lambda>l2 h. wr h Np (int l1)
                            (rd h Np (int l1) + rd h (GammaInv d) (int (l1 * L s + l2)) * rd h (Ntmp d) (int l2)))
              [0..<L s] (wr h Np (int l1) 0))
           [0..<L s] h2)"

text \<open>Lines 238-382.\<close>

definition update_P ::
  "meep_hpp \<Rightarrow> 'a multilevel_susceptibility_scheme \<Rightarrow> fields \<Rightarrow> fields \<Rightarrow> real \<Rightarrow> grid_volume \<Rightarrow>
     multilevel_data heap \<Rightarrow> nat \<Rightarrow> error + multilevel_data heap" where
  "update_P M s W W_prev dt gv h P_internal_data =
     (case pick_cdot M gv (the (bufs h P_internal_data)) of
        Inl e \<Rightarrow> Inl e
      | Inr (cdot, o1, o2, idot) \<Rightarrow>
          update_P_polarization M s W dt gv P_internal_data
            (fold (update_N_point M s W W_prev dt P_internal_data cdot o1 o2)
               (LOOP_OVER_VOL_OWNED gv (Centered M)) h))"

subsection \<open>The extended \<^verbatim>\<open>update_P\<close>: directions, offsets and populations\<close>

text \<open>
  Lines 842-870. The objects \<^verbatim>\<open>directions dirs\<close> and \<^verbatim>\<open>offsets o\<close> are declared
  without an initialiser and their struct declarations are in the header: what they hold
  at that point is a parameter (\<open>dirs0\<close>, \<open>offs0\<close>). \<^verbatim>\<open>pick_field_offsets\<close> never
  advances \<^verbatim>\<open>idot\<close>: every stored component writes entry 0.
\<close>

definition pick_field_directions ::
  "meep_hpp \<Rightarrow> component list \<Rightarrow> 'b multilevel_data_scheme \<Rightarrow> error + component list \<times> nat" where
  "pick_field_directions M dirs0 d =
     foldM (\<lambda>c (cdot, idot).
              if P d c 0 \<noteq> None then
                if idot = 3 then Inl TooManyPolarizationComponents
                else Inr (cdot[idot := c], idot + 1)
              else Inr (cdot, idot))
       (FOR_COMPONENTS M) (dirs0, 0)"

definition pick_field_offsets ::
  "meep_hpp \<Rightarrow> grid_volume \<Rightarrow> int list \<times> int list \<Rightarrow> 'b multilevel_data_scheme \<Rightarrow>
     error + int list \<times> int list \<times> nat" where
  "pick_field_offsets M gv offs0 d =
     foldM (\<lambda>c (o1, o2, idot).
              if P d c 0 \<noteq> None then
                if idot = 3 then Inl TooManyPolarizationComponents
                else Inr (o1[idot := fst (yee2cent_offsets gv c)], o2[idot := snd (yee2cent_offsets gv c)], idot)
              else Inr (o1, o2, idot))
       (FOR_COMPONENTS M) (fst offs0, snd offs0, 0)"

text \<open>
  Lines 872-890: \<^verbatim>\<open>sum\<close> of one array, \<^verbatim>\<open>sum\<close> and \<^verbatim>\<open>dif\<close> of a current and a
  previous array. The source applies them to field arrays and to arrays inside the internal
  data alike.
\<close>

definition sum_field :: "nat \<Rightarrow> nat \<Rightarrow> realnum list \<Rightarrow> int list \<times> int list \<Rightarrow> real" where
  "sum_field i idot vals offs =
     (let o1 = fst offs; o2 = snd offs
      in rdf vals (int i) + rdf vals (int i + o1 ! idot) + rdf vals (int i + o2 ! idot)
         + rdf vals (int i + o1 ! idot + o2 ! idot))"

definition sum2_field :: "nat \<Rightarrow> nat \<Rightarrow> realnum list \<Rightarrow> realnum list \<Rightarrow> int list \<times> int list \<Rightarrow> real" where
  "sum2_field i idot cur prev offs = sum_field i idot cur offs + sum_field i idot prev offs"

definition sum1 :: "('b multilevel_data_scheme) heap \<Rightarrow> nat \<Rightarrow> nat \<Rightarrow> rptr \<Rightarrow> int list \<times> int list \<Rightarrow> real" where
  "sum1 h i idot vals offs =
     (let o1 = fst offs; o2 = snd offs
      in rd h vals (int i) + rd h vals (int i + o1 ! idot) + rd h vals (int i + o2 ! idot)
         + rd h vals (int i + o1 ! idot + o2 ! idot))"

definition sum2 :: "('b multilevel_data_scheme) heap \<Rightarrow> nat \<Rightarrow> nat \<Rightarrow> rptr \<Rightarrow> rptr \<Rightarrow> int list \<times> int list \<Rightarrow> real" where
  "sum2 h i idot cur prev offs = sum1 h i idot cur offs + sum1 h i idot prev offs"

definition dif :: "('b multilevel_data_scheme) heap \<Rightarrow> nat \<Rightarrow> nat \<Rightarrow> rptr \<Rightarrow> rptr \<Rightarrow> int list \<times> int list \<Rightarrow> real" where
  "dif h i idot cur prev offs = sum1 h i idot cur offs - sum1 h i idot prev offs"

text \<open>Lines 616-629 and 634-657.\<close>

definition nonlinear_E8 :: "fields \<Rightarrow> fields \<Rightarrow> component list \<Rightarrow> int list \<times> int list \<Rightarrow> nat \<Rightarrow> nat \<Rightarrow> nat \<Rightarrow> real" where
  "nonlinear_E8 W W_prev cdot offs i idot cmp =
     (if cmp = 0 \<or> W (cdot ! idot) 1 \<noteq> None
      then sum2_field i idot (the (W (cdot ! idot) cmp)) (the (W_prev (cdot ! idot) cmp)) offs
      else 0)"

definition nonlinear_EdP32_EPave64 ::
  "meep_hpp \<Rightarrow> fields \<Rightarrow> fields \<Rightarrow> ('b multilevel_data_scheme) heap \<Rightarrow> 'b multilevel_data_scheme \<Rightarrow>
     component list \<Rightarrow> int list \<times> int list \<Rightarrow> nat \<Rightarrow> nat \<Rightarrow> real \<times> real" where
  "nonlinear_EdP32_EPave64 M W W_prev h d cdot offs i t =
     (let (EdP32, EPave64) =
        fold (\<lambda>idot (EdP32, EPave64).
                (let p = the (tabs h (the (P d (cdot ! idot) 0))) ! t;
                     pp = the (tabs h (the (P_prev d (cdot ! idot) 0))) ! t;
                     dP = dif h i idot p pp offs;
                     Pave2 = sum2 h i idot p pp offs;
                     EdP32 = EdP32 + dP * nonlinear_E8 W W_prev cdot offs i idot 0;
                     EPave64 = EPave64 + Pave2 * nonlinear_E8 W W_prev cdot offs i idot 0;
                     is_complex = P d (cdot ! idot) 1 \<noteq> None
                 in if is_complex then
                      (let p = the (tabs h (the (P d (cdot ! idot) 1))) ! t;
                           pp = the (tabs h (the (P_prev d (cdot ! idot) 1))) ! t;
                           dP = dif h i idot p pp offs;
                           Pave2 = sum2 h i idot p pp offs
                       in (EdP32 + dP * nonlinear_E8 W W_prev cdot offs i idot 1,
                           EPave64 + Pave2 * nonlinear_E8 W W_prev cdot offs i idot 1))
                    else (EdP32, EPave64)))
          (idots M cdot) (0, 0)
      in (EdP32 * 0.03125, EPave64 * 0.015625))"

text \<open>Lines 605-667, the body of the loop over the grid points.\<close>

definition nonlinear_update_N_point ::
  "meep_hpp \<Rightarrow> 'a multilevel_susceptibility_scheme \<Rightarrow> fields \<Rightarrow> fields \<Rightarrow> real \<Rightarrow> nat \<Rightarrow>
     component list \<Rightarrow> int list \<times> int list \<Rightarrow> nat \<Rightarrow>
     ('b multilevel_data_scheme) heap \<Rightarrow> ('b multilevel_data_scheme) heap" where
  "nonlinear_update_N_point M s W W_prev dt P_internal_data cdot offs i h0 =
     (let d = the (bufs h0 P_internal_data);
          dt2 = 0.5 * dt;
          Np = ptr_add (N d) (int (i * L s));
          h1 = fold (\<lambda>l1 h.
                  fold (\<lambda>l2 h. wr h (Ntmp d) (int l1)
                                  (rd h (Ntmp d) (int l1)
                                   + ((if l1 = l2 then 1 else 0) - Gamma s ! (l1 * L s + l2) * dt2) * rd h Np (int l2)))
                    [0..<L s] (wr h (Ntmp d) (int l1) 0))
                 [0..<L s] h0;
          h2 = fold (\<lambda>t h.
                  (let (EdP32, EPave64) = nonlinear_EdP32_EPave64 M W W_prev h d cdot offs i t;
                       gperpdt = gamma s ! t * pi * dt
                   in fold (\<lambda>l h. wr h (Ntmp d) (int l)
                                     (rd h (Ntmp d) (int l)
                                      + (alpha s ! (l * T s + t) * EdP32 + alpha s ! (l * T s + t) * gperpdt * EPave64)))
                        [0..<L s] h))
                 [0..<T s] h1
      in fold (\<lambda>l1 h.
            fold (\<lambda>l2 h. wr h Np (int l1)
                            (rd h Np (int l1) + rd h (GammaInv d) (int (l1 * L s + l2)) * rd h (Ntmp d) (int l2)))
              [0..<L s] (wr h Np (int l1) 0))
           [0..<L s] h2)"

subsection \<open>The extended \<^verbatim>\<open>update_P\<close>: the coherences\<close>

text \<open>
  Lines 671-756. Two expressions of this part do not type-check as written:
  \<^verbatim>\<open>v[cmp][i]\<close>, where \<^verbatim>\<open>v\<close> is a \<^verbatim>\<open>const realnum *\<close>, and \<^verbatim>\<open>sigma[i]\<close>, where
  \<^verbatim>\<open>sigma\<close> is the table of pointers. The model gives them no meaning of its own: the
  values they yield are parameters (\<open>v_cmp_i\<close>, which may depend on the heap, the pointer
  \<^verbatim>\<open>v\<close>, \<^verbatim>\<open>cmp\<close> and \<^verbatim>\<open>i\<close>, and \<open>sigma_i\<close>).
\<close>

record ill_typed =
  v_cmp_i :: "multilevel_extended_data heap \<Rightarrow> rptr \<Rightarrow> nat \<Rightarrow> nat \<Rightarrow> realnum"
  sigma_i :: "nat \<Rightarrow> realnum"

text \<open>Lines 914-925.\<close>

definition conjugate :: "nat \<Rightarrow> error + nat" where
  "conjugate cmp = (if cmp = 0 then Inr 1 else if cmp = 1 then Inr 0 else Inl InvalidComplexIndex)"

text \<open>
  Lines 701-720 for the pair \<^verbatim>\<open>(lk, lm)\<close> and lines 725-744 for the pair \<^verbatim>\<open>(lp, lk)\<close>,
  which are the same text: the value that is added to, respectively subtracted from,
  \<^verbatim>\<open>drho[conjugate(cmp)]\<close>, or the abort.
\<close>

definition commutator_term ::
  "meep_hpp \<Rightarrow> 'a multilevel_nonlinear_susceptibility_scheme \<Rightarrow> ill_typed \<Rightarrow> fields \<Rightarrow> real \<Rightarrow>
     multilevel_extended_data heap \<Rightarrow> multilevel_extended_data \<Rightarrow> component \<Rightarrow> nat \<Rightarrow> nat \<Rightarrow> nat \<Rightarrow>
     int \<Rightarrow> int \<Rightarrow> error + real" where
  "commutator_term M s X W dt h d c cmp i transition l1 l2 =
     (let w = W c cmp;
          dt2 = 0.5 * dt;
          st = sigmat s ! (5 * transition + component_direction M c);
          interaction_factor = st * sigma_i X i * rdf (the w) (int i);
          (nonradiative, is_index_found) = correspond_nonradiative_transition s l1 l2 False
      in if is_index_found then
           (let v_current = the (tabs h (the (V d cmp))) ! nat nonradiative;
                v_previous = the (tabs h (the (V_prev d cmp))) ! nat nonradiative
            in Inr (sign s cmp 1 * interaction_factor * (rd h v_current (int i) + rd h v_previous (int i)) * dt2))
         else
           (let (radiative, is_index_found) = correspond_radiative_transition s l1 l2 is_index_found
            in if is_index_found then
                 (let u_current = the (tabs h (the (P d c cmp))) ! nat radiative;
                      u_previous = the (tabs h (the (P_prev d c cmp))) ! nat radiative
                  in Inr (sign s cmp 1 * interaction_factor * (rd h u_current (int i) + rd h u_previous (int i)) * dt2))
               else Inl FailedCorrespond))"

text \<open>Lines 694-746, the body of the loop over the radiative transitions; \<open>cc\<close> is \<^verbatim>\<open>conjugate(cmp)\<close>.\<close>

definition coherence_transition ::
  "meep_hpp \<Rightarrow> 'a multilevel_nonlinear_susceptibility_scheme \<Rightarrow> ill_typed \<Rightarrow> fields \<Rightarrow> real \<Rightarrow>
     multilevel_extended_data heap \<Rightarrow> multilevel_extended_data \<Rightarrow> component \<Rightarrow> nat \<Rightarrow> nat \<Rightarrow> nat \<Rightarrow>
     int \<Rightarrow> int \<Rightarrow> nat \<Rightarrow> nat \<Rightarrow> realnum list \<Rightarrow> error + realnum list" where
  "coherence_transition M s X W dt h d c cmp cc i lp lm lk transition drho =
     (let is_coupled_p = alpha s ! nat (lp * int (T s) + int transition) \<noteq> 0;
          is_coupled_k = alpha s ! (lk * T s + transition) \<noteq> 0;
          is_coupled_m = alpha s ! nat (lm * int (T s) + int transition) \<noteq> 0
      in case (if is_coupled_p \<and> is_coupled_k then
                 (case commutator_term M s X W dt h d c cmp i transition (int lk) lm of
                    Inl e \<Rightarrow> Inl e
                  | Inr x \<Rightarrow> Inr (drho[cc := drho ! cc + x]))
               else Inr drho) of
           Inl e \<Rightarrow> Inl e
         | Inr drho1 \<Rightarrow>
             if is_coupled_k \<and> is_coupled_m then
               (case commutator_term M s X W dt h d c cmp i transition lp (int lk) of
                  Inl e \<Rightarrow> Inl e
                | Inr x \<Rightarrow> Inr (drho1[cc := drho1 ! cc - x]))
             else Inr drho1)"

text \<open>
  Lines 683-748, the body of \<^verbatim>\<open>FOR_COMPONENTS(c) DOCMP2\<close>: both entries of \<^verbatim>\<open>drho\<close> are
  assigned, then the loops over \<^verbatim>\<open>lk\<close> and the radiative transitions add to
  \<^verbatim>\<open>drho[conjugate(cmp)]\<close>. \<^verbatim>\<open>conjugate(cmp)\<close> is evaluated once, before the
  assignments (its abort ends the program, so the order cannot be observed).
\<close>

definition coherence_component ::
  "meep_hpp \<Rightarrow> 'a multilevel_nonlinear_susceptibility_scheme \<Rightarrow> ill_typed \<Rightarrow> fields \<Rightarrow> real \<Rightarrow>
     multilevel_extended_data heap \<Rightarrow> multilevel_extended_data \<Rightarrow> nat \<Rightarrow> nat \<Rightarrow> int \<Rightarrow> int \<Rightarrow>
     component \<times> nat \<Rightarrow> realnum list \<Rightarrow> error + realnum list" where
  "coherence_component M s X W dt h d crossection i lp lm = (\<lambda>(c, cmp) drho.
     case conjugate cmp of
       Inl e \<Rightarrow> Inl e
     | Inr cc \<Rightarrow>
         (let v = the (tabs h (the (V d cmp))) ! crossection;
              drho1 = drho[cmp := - sign s cmp 0 * gamma_decoherence s ! crossection * v_cmp_i X h v cmp i];
              drho2 = drho1[cc := - sign s cmp 1 * omega_nonradiative s ! crossection * v_cmp_i X h v cmp i]
          in foldM (\<lambda>lk. foldM (coherence_transition M s X W dt h d c cmp cc i lp lm lk) [0..<T s])
               [0..<L s] drho2))"

text \<open>Lines 681-754, the body of the loop over the grid points.\<close>

definition drho_point ::
  "meep_hpp \<Rightarrow> 'a multilevel_nonlinear_susceptibility_scheme \<Rightarrow> ill_typed \<Rightarrow> fields \<Rightarrow> real \<Rightarrow>
     multilevel_extended_data heap \<Rightarrow> nat \<Rightarrow> nat \<Rightarrow> int \<Rightarrow> int \<Rightarrow> nat \<Rightarrow> error + realnum list" where
  "drho_point M s X W dt h P_internal_data crossection lp lm i =
     foldM (coherence_component M s X W dt h (the (bufs h P_internal_data)) crossection i lp lm)
       (FOR_COMPONENTS_DOCMP2 M) [0, 0]"

definition coherence_point ::
  "meep_hpp \<Rightarrow> 'a multilevel_nonlinear_susceptibility_scheme \<Rightarrow> ill_typed \<Rightarrow> fields \<Rightarrow> real \<Rightarrow> nat \<Rightarrow> nat \<Rightarrow>
     int \<Rightarrow> int \<Rightarrow> nat \<Rightarrow> multilevel_extended_data heap \<Rightarrow> error + multilevel_extended_data heap" where
  "coherence_point M s X W dt P_internal_data crossection lp lm i h =
     (case drho_point M s X W dt h P_internal_data crossection lp lm i of
        Inl e \<Rightarrow> Inl e
      | Inr drho \<Rightarrow>
          (let d = the (bufs h P_internal_data);
               V0 = the (tabs h (the (V d 0))) ! crossection;
               V1 = the (tabs h (the (V d 1))) ! crossection;
               V_prev0 = the (tabs h (the (V_prev d 0))) ! crossection;
               V_prev1 = the (tabs h (the (V_prev d 1))) ! crossection;
               h1 = wr h V_prev0 (int i) (rd h V0 (int i));
               h2 = wr h1 V_prev1 (int i) (rd h1 V1 (int i));
               h3 = wr h2 V0 (int i) (rd h2 V0 (int i) + drho ! 0)
           in Inr (wr h3 V1 (int i) (rd h3 V1 (int i) + drho ! 1))))"

text \<open>Lines 671-756.\<close>

definition coherence_crossection ::
  "meep_hpp \<Rightarrow> 'a multilevel_nonlinear_susceptibility_scheme \<Rightarrow> ill_typed \<Rightarrow> fields \<Rightarrow> real \<Rightarrow> grid_volume \<Rightarrow> nat \<Rightarrow>
     nat \<Rightarrow> multilevel_extended_data heap \<Rightarrow> error + multilevel_extended_data heap" where
  "coherence_crossection M s X W dt gv P_internal_data crossection h =
     (let (lp, lm) = beta_levels s crossection
      in if lp < 0 \<or> lm < 0 then Inl (InvalidBeta crossection)
         else foldM (coherence_point M s X W dt P_internal_data crossection lp lm)
                (LOOP_OVER_VOL_OWNED gv (Centered M)) h)"

definition update_P_coherence ::
  "meep_hpp \<Rightarrow> 'a multilevel_nonlinear_susceptibility_scheme \<Rightarrow> ill_typed \<Rightarrow> fields \<Rightarrow> real \<Rightarrow> grid_volume \<Rightarrow> nat \<Rightarrow>
     multilevel_extended_data heap \<Rightarrow> error + multilevel_extended_data heap" where
  "update_P_coherence M s X W dt gv P_internal_data h =
     foldM (coherence_crossection M s X W dt gv P_internal_data) [0..<C s] h"

text \<open>Lines 590-819.\<close>

definition nonlinear_update_P ::
  "meep_hpp \<Rightarrow> 'a multilevel_nonlinear_susceptibility_scheme \<Rightarrow> ill_typed \<Rightarrow> fields \<Rightarrow> fields \<Rightarrow> real \<Rightarrow> grid_volume \<Rightarrow>
     component list \<Rightarrow> int list \<times> int list \<Rightarrow>
     multilevel_extended_data heap \<Rightarrow> nat \<Rightarrow> error + multilevel_extended_data heap" where
  "nonlinear_update_P M s X W W_prev dt gv dirs0 offs0 h P_internal_data =
     (case pick_field_directions M dirs0 (the (bufs h P_internal_data)) of
        Inl e \<Rightarrow> Inl e
      | Inr (cdot, idot) \<Rightarrow>
          (case pick_field_offsets M gv offs0 (the (bufs h P_internal_data)) of
             Inl e \<Rightarrow> Inl e
           | Inr (o1, o2, idot') \<Rightarrow>
               (case update_P_coherence M s X W dt gv P_internal_data
                       (fold (nonlinear_update_N_point M s W W_prev dt P_internal_data cdot (o1, o2))
                          (LOOP_OVER_VOL_OWNED gv (Centered M)) h) of
                  Inl e \<Rightarrow> Inl e
                | Inr h2 \<Rightarrow> update_P_polarization M s W dt gv P_internal_data h2)))"

text \<open>The two-level medium with the column of its transition set to zero.\<close>

definition susc_zero_column :: multilevel_susceptibility where
  "susc_zero_column = susc_two_level\<lparr>alpha := [0, 0]\<rparr>"

text \<open>
  A medium of the extended class with two levels, no radiative transition and one
  non-radiative transition, on the grid of four points, and its internal data laid out as
  \<^verbatim>\<open>init_internal_data\<close> slices it: \<^verbatim>\<open>GammaInv\<close> at 0, \<^verbatim>\<open>Ntmp\<close> at 4, \<^verbatim>\<open>N\<close> at 6,
  \<^verbatim>\<open>V[0][0]\<close> at 14, \<^verbatim>\<open>V_prev[0][0]\<close> at 18, \<^verbatim>\<open>V[1][0]\<close> at 22 and
  \<^verbatim>\<open>V_prev[1][0]\<close> at 26, in a block that has room for all of them. The coherence has
  real part 1 and imaginary part 0 at every point.
\<close>

definition susc_coherent :: multilevel_nonlinear_susceptibility where
  "susc_coherent = \<lparr> L = 2, T = 0, Gamma = [0, 0, 0, 0], N0 = [1, 0], alpha = [],
     omega = [], gamma = [], sigmat = [], sigma = (\<lambda>c d. None), needs_P = (\<lambda>c cmp W. False),
     C = 1, beta = [1, -1], gamma_decoherence = [1], omega_nonradiative = [1],
     sign = (\<lambda>cmp k. if cmp = 0 \<and> k = 1 then -1 else 1) \<rparr>"

definition data_coherent :: multilevel_extended_data where
  "data_coherent = \<lparr> sz_data = 920, ntot = 4, GammaInv = RPtr 0 0,
     P = (\<lambda>c cmp. None), P_prev = (\<lambda>c cmp. None), N = RPtr 0 6, Ntmp = RPtr 0 4,
     data = [1, 0, 0, 1] @ [0, 0] @ [1, 0, 1, 0, 1, 0, 1, 0]
            @ [1, 1, 1, 1] @ [0, 0, 0, 0] @ [0, 0, 0, 0] @ [0, 0, 0, 0],
     V = (\<lambda>cmp. if cmp = 0 then Some 1 else if cmp = 1 then Some 3 else None),
     V_prev = (\<lambda>cmp. if cmp = 0 then Some 2 else if cmp = 1 then Some 4 else None) \<rparr>"

definition heap_coherent :: "multilevel_extended_data heap" where
  "heap_coherent = \<lparr> bufs = [0 \<mapsto> data_coherent],
     tabs = [1 \<mapsto> [RPtr 0 14], 2 \<mapsto> [RPtr 0 18], 3 \<mapsto> [RPtr 0 22], 4 \<mapsto> [RPtr 0 26]],
     brk = 5 \<rparr>"

text \<open>The two ill-typed expressions read as \<^verbatim>\<open>v[i]\<close> and as the constant 1.\<close>

definition read_as_written :: ill_typed where
  "read_as_written = \<lparr> v_cmp_i = (\<lambda>h v cmp i. rd h v (int i)), sigma_i = (\<lambda>i. 1) \<rparr>"

text \<open>The same medium with one radiative transition whose column of \<^verbatim>\<open>alpha\<close> is zero.\<close>

definition susc_coherent_zero_column :: multilevel_nonlinear_susceptibility where
  "susc_coherent_zero_column = susc_coherent\<lparr>T := 1, alpha := [0, 0], omega := [1], gamma := [0],
     sigmat := [1, 1, 1, 1, 1]\<rparr>"


subsection \<open>Cloning and freeing the internal data\<close>





subsection \<open>The layout, in closed form\<close>

text \<open>
  What the slicing loops compute, written without loops (used to state and prove the
  properties of the layout): the table whose entry \<open>t\<close> points at element
  \<open>P0 + 2 * ntot * t\<close> of block \<open>d\<close>; the number of stored pairs that the loop visits before
  a given pair; and the statement that the pointers of block \<open>d\<close> are the ones the slicing
  loops of \<^verbatim>\<open>init_internal_data\<close> and \<^verbatim>\<open>copy_internal_data\<close> assign, for the pairs that
  have a table in \<open>d\<close>.
\<close>

definition canonical_table :: "nat \<Rightarrow> nat \<Rightarrow> nat \<Rightarrow> int \<Rightarrow> rptr list" where
  "canonical_table d n ntot' P0 = map (\<lambda>t. RPtr d (P0 + 2 * int ntot' * int t)) [0..<n]"

definition stored_before :: "(component \<times> nat) list \<Rightarrow> (component \<Rightarrow> nat \<Rightarrow> bool) \<Rightarrow> component \<times> nat \<Rightarrow> nat" where
  "stored_before xs stored x = length (filter (\<lambda>(c, cmp). stored c cmp) (takeWhile (\<lambda>y. y \<noteq> x) xs))"

definition stored_count :: "(component \<times> nat) list \<Rightarrow> (component \<Rightarrow> nat \<Rightarrow> bool) \<Rightarrow> nat" where
  "stored_count xs stored = length (filter (\<lambda>(c, cmp). stored c cmp) xs)"





text \<open>A pointer moved to the same element of another block.\<close>

fun rebase :: "nat \<Rightarrow> rptr \<Rightarrow> rptr" where
  "rebase b RNull = RNull"
| "rebase b (RPtr b' k) = RPtr b k"



section \<open>Theorems\<close>

subsection \<open>Level identification\<close>

lemma alpha_levels_step_fold:
  "fold (alpha_levels_step s t) [0..<n] (-1, -1) =
     ((if \<exists>l<n. alpha s ! (l * T s + t) > 0
       then int (GREATEST l. l < n \<and> alpha s ! (l * T s + t) > 0) else -1),
      (if \<exists>l<n. alpha s ! (l * T s + t) < 0
       then int (GREATEST l. l < n \<and> alpha s ! (l * T s + t) < 0) else -1))"
proof (induction n)
  case 0
  show ?case by simp
next
  case (Suc n)
  have gr: "(GREATEST l. l < Suc n \<and> Q l) = (if Q n then n else (GREATEST l. l < n \<and> Q l))"
    if "\<exists>l<Suc n. Q l" for Q :: "nat \<Rightarrow> bool"
  proof (cases "Q n")
    case True
    then have "(GREATEST l. l < Suc n \<and> Q l) = n"
      by (intro Greatest_equality) auto
    with True show ?thesis by simp
  next
    case False
    then have "(\<lambda>l. l < Suc n \<and> Q l) = (\<lambda>l. l < n \<and> Q l)"
      by (auto simp: less_Suc_eq)
    with False show ?thesis by simp
  qed
  have ex: "(\<exists>l<Suc n. Q l) = (Q n \<or> (\<exists>l<n. Q l))" for Q :: "nat \<Rightarrow> bool"
    by (auto simp: less_Suc_eq)
  show ?case
    using Suc gr[of "\<lambda>l. alpha s ! (l * T s + t) > 0"] gr[of "\<lambda>l. alpha s ! (l * T s + t) < 0"]
    by (auto simp: alpha_levels_step_def ex)
qed


lemma beta_levels_step_fold:
  "fold (beta_levels_step s cr) [0..<n] (-1, -1) =
     ((if \<exists>l<n. beta s ! (l * C s + cr) > 0 then 1 else -1),
      (if \<exists>l<n. beta s ! (l * C s + cr) < 0 then 1 else -1))"
proof (induction n)
  case 0
  show ?case by simp
next
  case (Suc n)
  have ex: "(\<exists>l<Suc n. Q l) = (Q n \<or> (\<exists>l<n. Q l))" for Q :: "nat \<Rightarrow> bool"
    by (auto simp: less_Suc_eq)
  show ?case
    using Suc by (auto simp: beta_levels_step_def ex)
qed

text \<open>
  Whatever the column of \<^verbatim>\<open>beta\<close> is, the loop of lines 673-677 can only produce the
  values \<open>-1\<close> and \<open>1\<close>: the level index never reaches \<^verbatim>\<open>lp\<close> or \<^verbatim>\<open>lm\<close>.
\<close>

lemma beta_levels_eq:
  "beta_levels s cr =
     ((if \<exists>l<L s. beta s ! (l * C s + cr) > 0 then 1 else -1),
      (if \<exists>l<L s. beta s ! (l * C s + cr) < 0 then 1 else -1))"
  by (simp add: beta_levels_def beta_levels_step_fold)

text \<open>
  Claim C4 (the code departs from it). The claim: for a non-radiative transition whose column
  of \<^verbatim>\<open>beta\<close> has exactly one positive and one negative entry, \<^verbatim>\<open>lp\<close> is the level
  of the positive entry and \<^verbatim>\<open>lm\<close> the level of the negative one. For three levels and
  the column \<open>(1, 0, -1)\<close> the positive entry is at level 0 and the negative one at level 2,
  but the loop of the extended \<^verbatim>\<open>update_P\<close> yields \<open>lp = 1\<close> and \<open>lm = 1\<close>.
\<close>

theorem C4_beta_levels_at_three_level:
  "beta_levels susc_three_level 0 = (1, 1)
   \<and> L susc_three_level = 3 \<and> C susc_three_level = 1
   \<and> beta susc_three_level = [1, 0, -1]"
  by (simp add: beta_levels_def beta_levels_step_def susc_three_level_def upt_rec)

subsection \<open>The size of the buffer\<close>

text \<open>
  Claim C3 (the code departs from it). The claim: the buffer of \<^verbatim>\<open>new_internal_data\<close>
  is large enough for every sub-array that \<^verbatim>\<open>init_internal_data\<close> slices out of it, in
  both classes. For the extended class with one level, one non-radiative transition, no
  stored component and a grid of one point, the sub-arrays are the seven single elements at
  indices 0 to 6 (\<^verbatim>\<open>GammaInv\<close>, \<^verbatim>\<open>Ntmp\<close>, \<^verbatim>\<open>N\<close>, \<^verbatim>\<open>V[0][0]\<close>, \<^verbatim>\<open>V_prev[0][0]\<close>,
  \<^verbatim>\<open>V[1][0]\<close>, \<^verbatim>\<open>V_prev[1][0]\<close>). In the 64-bit build the block holds one element only,
  since its size is computed from the smaller struct; and were both structs of one size it
  would hold five, since \<^verbatim>\<open>V_size = 2 * ntot * C\<close> counts one complex part where the
  loop over \<^verbatim>\<open>DOCMP2\<close> slices two. Either way \<^verbatim>\<open>V[1][0]\<close> and \<^verbatim>\<open>V_prev[1][0]\<close>
  lie outside the block.
\<close>

theorem C3_nonlinear_sub_arrays_outside:
  "(case nonlinear_new_internal_data meep_64 susc_one_level no_fields gv_one_point empty_heap of
      (d, h1) \<Rightarrow>
        (case nonlinear_init_internal_data meep_64 susc_one_level no_fields 1 gv_one_point h1 d of
           Inl e \<Rightarrow> False
         | Inr h2 \<Rightarrow>
             length (data (the (bufs h2 d))) = 1
             \<and> nonlinear_sub_arrays meep_64 susc_one_level h2 d =
                 [(RPtr d 0, 1), (RPtr d 1, 1), (RPtr d 2, 1), (RPtr d 3, 1), (RPtr d 4, 1),
                  (RPtr d 5, 1), (RPtr d 6, 1)]
             \<and> map (lies_within h2 d) (nonlinear_sub_arrays meep_64 susc_one_level h2 d) =
                 [True, False, False, False, False, False, False]))
   \<and> (case nonlinear_new_internal_data (meep_64\<lparr>offsetof_extended_data := 680\<rparr>)
             susc_one_level no_fields gv_one_point empty_heap of
      (d, h1) \<Rightarrow>
        (case nonlinear_init_internal_data (meep_64\<lparr>offsetof_extended_data := 680\<rparr>)
                susc_one_level no_fields 1 gv_one_point h1 d of
           Inl e \<Rightarrow> False
         | Inr h2 \<Rightarrow>
             length (data (the (bufs h2 d))) = 5
             \<and> map (lies_within h2 d) (nonlinear_sub_arrays meep_64 susc_one_level h2 d) =
                 [True, True, True, True, True, False, False]))"
  by code_simp

subsection \<open>Polarization slices for the field solver\<close>

text \<open>
  Claim C10. In both classes, \<^verbatim>\<open>num_cinternal_notowned_needed\<close> is \<open>T\<close> when the table
  of the real part of component \<open>c\<close> exists and 0 otherwise; \<^verbatim>\<open>cinternal_notowned_ptr\<close>
  is null when the data pointer is null, when the table of \<open>(c, cmp)\<close> is absent or when the
  index is outside \<open>[0, T)\<close>, and otherwise it is the pointer stored for that transition
  advanced by \<open>n\<close> elements.
\<close>

theorem C10_cinternal_notowned:
  "num_cinternal_notowned_needed s h c d =
      (if P (the (bufs h d)) c 0 = None then 0 else int (T s))
   \<and> nonlinear_num_cinternal_notowned_needed s' h' c d =
      (if P (the (bufs h' d)) c 0 = None then 0 else int (T s'))
   \<and> cinternal_notowned_ptr s h i c cmp n None = RNull
   \<and> nonlinear_cinternal_notowned_ptr s' h' i c cmp n None = RNull
   \<and> (P (the (bufs h d)) c cmp = None \<or> i < 0 \<or> int (T s) \<le> i
        \<longrightarrow> cinternal_notowned_ptr s h i c cmp n (Some d) = RNull)
   \<and> (P (the (bufs h' d)) c cmp = None \<or> i < 0 \<or> int (T s') \<le> i
        \<longrightarrow> nonlinear_cinternal_notowned_ptr s' h' i c cmp n (Some d) = RNull)
   \<and> (P (the (bufs h d)) c cmp = Some tab \<and> 0 \<le> i \<and> i < int (T s)
        \<and> the (tabs h tab) ! nat i = RPtr b k
        \<longrightarrow> cinternal_notowned_ptr s h i c cmp n (Some d) = RPtr b (k + n))
   \<and> (P (the (bufs h' d)) c cmp = Some tab \<and> 0 \<le> i \<and> i < int (T s')
        \<and> the (tabs h' tab) ! nat i = RPtr b k
        \<longrightarrow> nonlinear_cinternal_notowned_ptr s' h' i c cmp n (Some d) = RPtr b (k + n))"
  by (auto simp: num_cinternal_notowned_needed_def nonlinear_num_cinternal_notowned_needed_def
        cinternal_notowned_ptr_def nonlinear_cinternal_notowned_ptr_def Let_def
      split: option.splits)

theorem C10_cinternal_notowned_witness:
  "P (the (bufs heap_two_level 0)) 0 1 = Some 3
   \<and> the (tabs heap_two_level 3) ! nat 0 = RPtr 0 12
   \<and> T susc_two_level = 1
   \<and> num_cinternal_notowned_needed susc_two_level heap_two_level 0 0 = 1
   \<and> cinternal_notowned_ptr susc_two_level heap_two_level 0 0 1 2 (Some 0) = RPtr 0 14
   \<and> cinternal_notowned_ptr susc_two_level heap_two_level 1 0 1 2 (Some 0) = RNull
   \<and> P (the (bufs heap_two_level 0)) 1 0 = None
   \<and> cinternal_notowned_ptr susc_two_level heap_two_level 0 1 0 2 (Some 0) = RNull"
proof -
  have "P (the (bufs heap_two_level 0)) 0 1 = Some 3
    \<and> the (tabs heap_two_level 3) ! nat 0 = RPtr 0 12
    \<and> T susc_two_level = 1
    \<and> P (the (bufs heap_two_level 0)) 0 0 \<noteq> None
    \<and> P (the (bufs heap_two_level 0)) 1 0 = None"
    by code_simp
  then have pre: "P (the (bufs heap_two_level 0)) 0 1 = Some 3"
    "the (tabs heap_two_level 3) ! nat 0 = RPtr 0 12"
    "T susc_two_level = 1"
    "P (the (bufs heap_two_level 0)) 0 0 \<noteq> None"
    "P (the (bufs heap_two_level 0)) 1 0 = None"
    by blast+
  note inst = C10_cinternal_notowned[where s = susc_two_level and h = heap_two_level and d = 0
      and n = 2 and s' = susc_one_level and h' = empty_heap]
  from inst[where c = 0 and cmp = 1 and i = 0 and tab = 3 and b = 0 and k = 12] pre
  have a: "num_cinternal_notowned_needed susc_two_level heap_two_level 0 0 = 1"
    "cinternal_notowned_ptr susc_two_level heap_two_level 0 0 1 2 (Some 0) = RPtr 0 14"
    by simp_all
  from inst[where c = 0 and cmp = 1 and i = 1] pre
  have b: "cinternal_notowned_ptr susc_two_level heap_two_level 1 0 1 2 (Some 0) = RNull"
    by simp
  from inst[where c = 1 and cmp = 0 and i = 0] pre
  have c: "cinternal_notowned_ptr susc_two_level heap_two_level 0 1 0 2 (Some 0) = RNull"
    by simp
  from pre a b c show ?thesis by simp
qed

subsection \<open>Subtracting the polarization\<close>

















subsection \<open>Invalid transitions abort\<close>

lemma foldM_append:
  "foldM f (xs @ ys) s = (case foldM f xs s of Inl e \<Rightarrow> Inl e | Inr s' \<Rightarrow> foldM f ys s')"
  by (induction xs arbitrary: s) (auto split: sum.splits)

lemma foldM_error_cases:
  assumes "foldM f xs s = Inl e"
  shows "\<exists>x \<in> set xs. \<exists>s'. f x s' = Inl e"
  using assms
proof (induction xs arbitrary: s)
  case Nil
  then show ?case by simp
next
  case (Cons x xs)
  then show ?case by (cases "f x s") auto
qed


lemma alpha_levels_eq:
  "alpha_levels s t =
     ((if \<exists>l<L s. alpha s ! (l * T s + t) > 0
       then int (GREATEST l. l < L s \<and> alpha s ! (l * T s + t) > 0) else -1),
      (if \<exists>l<L s. alpha s ! (l * T s + t) < 0
       then int (GREATEST l. l < L s \<and> alpha s ! (l * T s + t) < 0) else -1))"
  by (simp add: alpha_levels_def alpha_levels_step_fold)

lemma alpha_levels_negative:
  "(fst (alpha_levels s t) < 0 \<or> snd (alpha_levels s t) < 0) =
     ((\<forall>l<L s. \<not> alpha s ! (l * T s + t) > 0) \<or> (\<forall>l<L s. \<not> alpha s ! (l * T s + t) < 0))"
  by (auto simp: alpha_levels_eq)

lemma update_P_transition_invalid:
  assumes "(\<forall>l<L s. \<not> alpha s ! (l * T s + t) > 0) \<or> (\<forall>l<L s. \<not> alpha s ! (l * T s + t) < 0)"
  shows "update_P_transition M s W dt gv d t h = Inl (InvalidAlpha t)"
  using assms alpha_levels_negative[of s t]
  by (auto simp: update_P_transition_def split: prod.splits)

lemma update_P_component_error:
  "update_P_component M s W dt gv d t lp lm x h = Inl e \<Longrightarrow> e = NondiagonalGain"
  by (cases x) (auto simp: update_P_component_def Let_def split: option.splits if_splits)

lemma update_P_transition_error:
  assumes "update_P_transition M s W dt gv d t h = Inl e"
  shows "e = InvalidAlpha t \<or> e = NondiagonalGain"
proof (cases "fst (alpha_levels s t) < 0 \<or> snd (alpha_levels s t) < 0")
  case True
  with assms show ?thesis by (auto simp: update_P_transition_def split: prod.splits)
next
  case False
  with assms have "foldM (update_P_component M s W dt gv d t (fst (alpha_levels s t)) (snd (alpha_levels s t)))
      (FOR_COMPONENTS_DOCMP2 M) h = Inl e"
    by (auto simp: update_P_transition_def split: prod.splits)
  from foldM_error_cases[OF this] show ?thesis
    by (auto dest: update_P_component_error)
qed

lemma upt_split: "t < n \<Longrightarrow> [0..<n] = [0..<t] @ t # [Suc t..<n]"
  by (metis upt_conv_Cons upt_add_eq_append le0 le_add_diff_inverse less_imp_le_nat add_0)

lemma update_P_polarization_invalid:
  fixes h :: "('b multilevel_data_scheme) heap"
  assumes t: "t < T s"
    and inv: "(\<forall>l<L s. \<not> alpha s ! (l * T s + t) > 0) \<or> (\<forall>l<L s. \<not> alpha s ! (l * T s + t) < 0)"
  shows "\<exists>e. update_P_polarization M s W dt gv d h = Inl e
           \<and> (e = NondiagonalGain \<or> (\<exists>t'\<le>t. e = InvalidAlpha t'))"
proof (cases "foldM (update_P_transition M s W dt gv d) [0..<t] h")
  case (Inl e)
  from foldM_error_cases[OF Inl]
  obtain t' and h' :: "('b multilevel_data_scheme) heap"
    where t': "t' < t" and err: "update_P_transition M s W dt gv d t' h' = Inl e"
    by auto
  from update_P_transition_error[OF err] t'
  have "e = NondiagonalGain \<or> (\<exists>t'\<le>t. e = InvalidAlpha t')" by auto
  with Inl show ?thesis
    unfolding update_P_polarization_def upt_split[OF t] foldM_append by simp
next
  case (Inr h1)
  then show ?thesis
    unfolding update_P_polarization_def upt_split[OF t] foldM_append
    using update_P_transition_invalid[OF inv, of M W dt gv d h1] by simp
qed

text \<open>
  Claim C7. When column \<open>t\<close> of \<^verbatim>\<open>alpha\<close> has no positive entry or no negative entry, the
  step of \<^verbatim>\<open>update_P\<close> for transition \<open>t\<close> is the abort "invalid alpha array for
  transition t", from whatever state it is entered, in both classes; so the loop over the
  transitions never returns, and neither does \<^verbatim>\<open>update_P\<close>. The abort that ends the
  loop is the one of the first invalid transition up to \<open>t\<close>, unless an earlier transition
  met the abort for nondiagonal gain.
\<close>

theorem C7_invalid_alpha_aborts:
  fixes h :: "multilevel_data heap" and h' :: "multilevel_extended_data heap"
  assumes t: "t < T s"
    and inv: "(\<forall>l<L s. \<not> alpha s ! (l * T s + t) > 0) \<or> (\<forall>l<L s. \<not> alpha s ! (l * T s + t) < 0)"
  shows "update_P_transition M s W dt gv d t h = Inl (InvalidAlpha t)
    \<and> update_P_transition M s W dt gv d t h' = Inl (InvalidAlpha t)
    \<and> (\<exists>e. update_P_polarization M s W dt gv d h = Inl e
             \<and> (e = NondiagonalGain \<or> (\<exists>t'\<le>t. e = InvalidAlpha t')))
    \<and> (\<exists>e. update_P_polarization M s W dt gv d h' = Inl e
             \<and> (e = NondiagonalGain \<or> (\<exists>t'\<le>t. e = InvalidAlpha t')))
    \<and> isl (update_P M s W W_prev dt gv h d)
    \<and> (t < T sn \<and> ((\<forall>l<L sn. \<not> alpha sn ! (l * T sn + t) > 0) \<or> (\<forall>l<L sn. \<not> alpha sn ! (l * T sn + t) < 0))
          \<longrightarrow> isl (nonlinear_update_P M sn X W W_prev dt gv dirs0 offs0 h' d))"
proof -
  have pol: "isl (update_P_polarization M s W dt gv d h0)" for h0 :: "multilevel_data heap"
    using update_P_polarization_invalid[OF t inv, of M W dt gv d h0] by auto
  have polE: "isl (update_P_polarization M sn W dt gv d h0)"
    if "t < T sn" "(\<forall>l<L sn. \<not> alpha sn ! (l * T sn + t) > 0) \<or> (\<forall>l<L sn. \<not> alpha sn ! (l * T sn + t) < 0)"
    for h0 :: "multilevel_extended_data heap"
    using update_P_polarization_invalid[OF that, of M W dt gv d h0] by auto
  have whole: "isl (update_P M s W W_prev dt gv h d)"
    using pol by (auto simp: update_P_def split: sum.splits prod.splits)
  have wholeE: "isl (nonlinear_update_P M sn X W W_prev dt gv dirs0 offs0 h' d)"
    if "t < T sn" "(\<forall>l<L sn. \<not> alpha sn ! (l * T sn + t) > 0) \<or> (\<forall>l<L sn. \<not> alpha sn ! (l * T sn + t) < 0)"
    using polE[OF that] by (auto simp: nonlinear_update_P_def split: sum.splits prod.splits)
  show ?thesis
    using update_P_transition_invalid[OF inv, of M W dt gv d h]
      update_P_transition_invalid[OF inv, of M W dt gv d h']
      update_P_polarization_invalid[OF t inv, of M W dt gv d h]
      update_P_polarization_invalid[OF t inv, of M W dt gv d h']
      whole wholeE
    by blast
qed

theorem C7_invalid_alpha_aborts_witness:
  "0 < T susc_zero_column
   \<and> alpha susc_zero_column ! (0 * T susc_zero_column + 0) = 0
   \<and> alpha susc_zero_column ! (1 * T susc_zero_column + 0) = 0
   \<and> L susc_zero_column = 2
   \<and> update_P_transition meep_64 susc_zero_column fields_Ex 1 gv_four_points 0 0 heap_two_level_run
        = Inl (InvalidAlpha 0)
   \<and> update_P_polarization meep_64 susc_zero_column fields_Ex 1 gv_four_points 0 heap_two_level_run
        = Inl (InvalidAlpha 0)
   \<and> isl (update_P meep_64 susc_zero_column fields_Ex fields_Ex 1 gv_four_points heap_two_level_run 0)
   \<and> 0 < T susc_coherent_zero_column
   \<and> alpha susc_coherent_zero_column = [0, 0]
   \<and> L susc_coherent_zero_column = 2
   \<and> isl (nonlinear_update_P meep_64 susc_coherent_zero_column read_as_written fields_Ex fields_Ex 1
             gv_four_points [20, 20, 20] ([0, 0, 0], [0, 0, 0]) heap_coherent 0)"
proof -
  have facts: "0 < T susc_zero_column" "L susc_zero_column = 2"
    "alpha susc_zero_column ! (0 * T susc_zero_column + 0) = 0"
    "alpha susc_zero_column ! (1 * T susc_zero_column + 0) = 0"
    "0 < T susc_coherent_zero_column" "L susc_coherent_zero_column = 2"
    "alpha susc_coherent_zero_column = [0, 0]" "T susc_coherent_zero_column = 1"
    by (simp_all add: susc_zero_column_def susc_two_level_def susc_coherent_zero_column_def
        susc_coherent_def)
  have inv: "(\<forall>l<L susc_zero_column. \<not> alpha susc_zero_column ! (l * T susc_zero_column + 0) > 0)
      \<or> (\<forall>l<L susc_zero_column. \<not> alpha susc_zero_column ! (l * T susc_zero_column + 0) < 0)"
    by (simp add: susc_zero_column_def susc_two_level_def less_Suc_eq numeral_2_eq_2)
  have invn: "(\<forall>l<L susc_coherent_zero_column.
                  \<not> alpha susc_coherent_zero_column ! (l * T susc_coherent_zero_column + 0) > 0)
      \<or> (\<forall>l<L susc_coherent_zero_column.
                  \<not> alpha susc_coherent_zero_column ! (l * T susc_coherent_zero_column + 0) < 0)"
    by (simp add: susc_coherent_zero_column_def susc_coherent_def less_Suc_eq numeral_2_eq_2)
  note inst = C7_invalid_alpha_aborts[where s = susc_zero_column and t = 0 and M = meep_64
      and W = fields_Ex and W_prev = fields_Ex and dt = 1 and gv = gv_four_points and d = 0
      and h = heap_two_level_run and h' = heap_coherent and sn = susc_coherent_zero_column
      and X = read_as_written and ?dirs0.0 = "[20, 20, 20]" and ?offs0.0 = "([0, 0, 0], [0, 0, 0])",
      OF facts(1) inv]
  from inst have a: "update_P_transition meep_64 susc_zero_column fields_Ex 1 gv_four_points 0 0
      heap_two_level_run = Inl (InvalidAlpha 0)" by blast
  from inst obtain e where e: "update_P_polarization meep_64 susc_zero_column fields_Ex 1 gv_four_points 0
      heap_two_level_run = Inl e" "e = NondiagonalGain \<or> (\<exists>t'\<le>0. e = InvalidAlpha t')" by blast
  have "update_P_polarization meep_64 susc_zero_column fields_Ex 1 gv_four_points 0 heap_two_level_run
      = Inl (InvalidAlpha 0)"
    using a facts by (simp add: update_P_polarization_def upt_rec)
  moreover from inst have "isl (update_P meep_64 susc_zero_column fields_Ex fields_Ex 1 gv_four_points
      heap_two_level_run 0)" by blast
  moreover from inst facts(5) invn
  have "isl (nonlinear_update_P meep_64 susc_coherent_zero_column read_as_written fields_Ex fields_Ex 1
             gv_four_points [20, 20, 20] ([0, 0, 0], [0, 0, 0]) heap_coherent 0)" by blast
  ultimately show ?thesis using a facts by simp
qed

subsection \<open>Looking a pair of levels up\<close>

lemma find_snoc:
  "find Q (xs @ [x]) = (case find Q xs of None \<Rightarrow> (if Q x then Some x else None) | Some y \<Rightarrow> Some y)"
  by (induction xs) auto

lemma find_upt_first:
  "find Q [0..<n] = (if \<exists>i<n. Q i then Some (LEAST i. Q i) else None)"
proof (induction n)
  case 0
  show ?case by simp
next
  case (Suc n)
  show ?case
  proof (cases "\<exists>i<n. Q i")
    case True
    with Suc show ?thesis by (auto simp: find_snoc less_Suc_eq)
  next
    case False
    then have none: "find Q [0..<n] = None" using Suc by simp
    show ?thesis
    proof (cases "Q n")
      case True
      have "(LEAST i. Q i) = n"
        using True False by (intro Least_equality) (auto simp: not_less)
      with True none show ?thesis by (auto simp: find_snoc)
    next
      case F2: False
      with False have "\<not> (\<exists>i<Suc n. Q i)" by (auto simp: less_Suc_eq)
      with F2 none show ?thesis by (simp add: find_snoc)
    qed
  qed
qed

lemma correspond_nonradiative_found:
  assumes "n < C s" "nonradiative_connects s l1 l2 n"
  shows "\<exists>n0\<le>n. nonradiative_connects s l1 l2 n0 \<and> (\<forall>m<n0. \<not> nonradiative_connects s l1 l2 m)
           \<and> correspond_nonradiative_transition s l1 l2 b = (int n0, True)"
proof -
  let ?n0 = "LEAST i. nonradiative_connects s l1 l2 i"
  have "?n0 \<le> n" using assms(2) by (rule Least_le)
  moreover have "nonradiative_connects s l1 l2 ?n0" using assms(2) by (rule LeastI)
  moreover have "\<forall>m<?n0. \<not> nonradiative_connects s l1 l2 m" using not_less_Least by blast
  moreover have "correspond_nonradiative_transition s l1 l2 b = (int ?n0, True)"
    using assms by (auto simp: correspond_nonradiative_transition_def find_upt_first)
  ultimately show ?thesis by blast
qed




lemma commutator_term_nonradiative:
  assumes "n < C s" "nonradiative_connects s l1 l2 n"
  shows "\<exists>n0\<le>n. nonradiative_connects s l1 l2 n0 \<and> (\<forall>m<n0. \<not> nonradiative_connects s l1 l2 m)
     \<and> commutator_term M s X W dt h d c cmp i tr l1 l2 =
         Inr (sign s cmp 1
              * (sigmat s ! (5 * tr + component_direction M c) * sigma_i X i * rdf (the (W c cmp)) (int i))
              * (rd h (the (tabs h (the (V d cmp))) ! n0) (int i)
                 + rd h (the (tabs h (the (V_prev d cmp))) ! n0) (int i))
              * (0.5 * dt))"
proof -
  from correspond_nonradiative_found[OF assms, of False] obtain n0 where
    "n0 \<le> n" "nonradiative_connects s l1 l2 n0" "\<forall>m<n0. \<not> nonradiative_connects s l1 l2 m"
    "correspond_nonradiative_transition s l1 l2 False = (int n0, True)" by blast
  then show ?thesis
    by (intro exI[of _ n0]) (simp add: commutator_term_def Let_def)
qed












subsection \<open>The rate of change of the coherence\<close>

text \<open>
  Every pass of the loop \<^verbatim>\<open>FOR_COMPONENTS(c) DOCMP2\<close> assigns both entries of
  \<^verbatim>\<open>drho\<close> before it adds its coupling terms, so what the earlier passes left there is
  lost: \<^verbatim>\<open>drho\<close> after the loop is what the last pass alone (last component, imaginary
  part) makes of zero.
\<close>

lemma foldM_length:
  assumes "\<And>x s s'. f x s = Inr s' \<Longrightarrow> length s' = length s"
  shows "foldM f xs s = Inr s' \<Longrightarrow> length s' = length s"
proof (induction xs arbitrary: s)
  case Nil
  then show ?case by simp
next
  case (Cons x xs)
  then show ?case using assms by (cases "f x s") auto
qed

lemma coherence_transition_length:
  "coherence_transition M s X W dt h d c cmp cc i lp lm lk tr drho = Inr drho' \<Longrightarrow> length drho' = length drho"
  by (auto simp: coherence_transition_def Let_def split: sum.splits if_splits)

lemma coherence_component_length:
  assumes "coherence_component M s X W dt h d cr i lp lm x drho = Inr drho'"
  shows "length drho' = length drho"
proof -
  obtain c cmp where x: "x = (c, cmp)" by (cases x)
  from assms obtain cc where cc: "conjugate cmp = Inr cc"
    unfolding x by (auto simp: coherence_component_def split: sum.splits)
  let ?d2 = "(drho[cmp := - sign s cmp 0 * gamma_decoherence s ! cr * v_cmp_i X h (the (tabs h (the (V d cmp))) ! cr) cmp i])
            [cc := - sign s cmp 1 * omega_nonradiative s ! cr * v_cmp_i X h (the (tabs h (the (V d cmp))) ! cr) cmp i]"
  from assms cc have f: "foldM (\<lambda>lk. foldM (coherence_transition M s X W dt h d c cmp cc i lp lm lk) [0..<T s])
               [0..<L s] ?d2 = Inr drho'"
    unfolding x by (simp add: coherence_component_def Let_def)
  have "length drho' = length ?d2"
    by (rule foldM_length[OF _ f]) (rule foldM_length[OF coherence_transition_length])
  then show ?thesis by simp
qed

lemma coherence_component_overwrites:
  assumes "cmp < 2" "length drho = 2"
  shows "coherence_component M s X W dt h d cr i lp lm (c, cmp) drho
       = coherence_component M s X W dt h d cr i lp lm (c, cmp) [0, 0]"
proof -
  obtain a b where d: "drho = [a, b]"
    using assms(2) by (metis (no_types, lifting) Suc_length_conv length_0_conv numeral_2_eq_2)
  from assms(1) have "cmp = 0 \<or> cmp = 1" by auto
  then show ?thesis
    unfolding d by (auto simp: coherence_component_def conjugate_def Let_def)
qed

lemma FOR_COMPONENTS_DOCMP2_Suc:
  "NUM_FIELD_COMPONENTS M = Suc k \<Longrightarrow>
     FOR_COMPONENTS_DOCMP2 M = concat (map (\<lambda>c. map (\<lambda>cmp. (c, cmp)) DOCMP2) [0..<k]) @ [(k, 0)] @ [(k, 1)]"
  by (simp add: FOR_COMPONENTS_DOCMP2_def FOR_COMPONENTS_def DOCMP2_def)

lemma drho_point_last:
  assumes nfc: "NUM_FIELD_COMPONENTS M = Suc k"
    and res: "drho_point M s X W dt h a cr lp lm i = Inr drho"
  shows "coherence_component M s X W dt h (the (bufs h a)) cr i lp lm (k, 1) [0, 0] = Inr drho"
proof -
  let ?f = "coherence_component M s X W dt h (the (bufs h a)) cr i lp lm"
  let ?xs = "concat (map (\<lambda>c. map (\<lambda>cmp. (c, cmp)) DOCMP2) [0..<k]) @ [(k, 0)]"
  from res have r: "foldM ?f (?xs @ [(k, 1)]) [0, 0] = Inr drho"
    unfolding drho_point_def FOR_COMPONENTS_DOCMP2_Suc[OF nfc] by simp
  then obtain d1 where d1: "foldM ?f ?xs [0, 0] = Inr d1" and last: "?f (k, 1) d1 = Inr drho"
    unfolding foldM_append by (auto split: sum.splits)
  have "length d1 = length [0, 0 :: real]"
    by (rule foldM_length[OF _ d1]) (rule coherence_component_length)
  then have "length d1 = 2" by simp
  from coherence_component_overwrites[OF _ this, of 1 M s X W dt h "the (bufs h a)" cr i lp lm k] last
  show ?thesis by simp
qed

text \<open>
  Claim C5 (the code departs from it). The claim: \<^verbatim>\<open>drho\<close> is the sum of an autonomous
  term proportional to the decoherence rate and the beat frequency and of the coupling terms
  of every intermediate level and every stored component and part, and the coherence is then
  advanced by \<^verbatim>\<open>V_prev = V; V += drho\<close>. The medium below has no radiative transition
  (so there is no coupling term at all), decoherence rate 1, and at grid point 1 a coherence
  with real part 1 and imaginary part 0. The pass for the real part sets \<^verbatim>\<open>drho\<close> to the
  decay of the real part, and the pass for the imaginary part overwrites it: \<^verbatim>\<open>drho\<close> is
  \<open>(0, 0)\<close>, and the step leaves \<^verbatim>\<open>V[0]\<close> at 1 (copied to \<^verbatim>\<open>V_prev[0]\<close>), with
  no decay.
\<close>

theorem C5_drho_at_coherent_medium:
  "beta_levels susc_coherent 0 = (1, 1)
   \<and> gamma_decoherence susc_coherent ! 0 = 1
   \<and> sign susc_coherent 0 0 = 1
   \<and> rd heap_coherent (the (tabs heap_coherent (the (V data_coherent 0))) ! 0) 1 = 1
   \<and> rd heap_coherent (the (tabs heap_coherent (the (V data_coherent 1))) ! 0) 1 = 0
   \<and> drho_point meep_64 susc_coherent read_as_written no_fields 1 heap_coherent 0 0 1 1 1 = Inr [0, 0]
   \<and> (case coherence_point meep_64 susc_coherent read_as_written no_fields 1 0 0 1 1 1 heap_coherent of
         Inl e \<Rightarrow> False
       | Inr h' \<Rightarrow>
           rd h' (RPtr 0 14) 1 = 1 \<and> rd h' (RPtr 0 18) 1 = 1
           \<and> rd h' (RPtr 0 22) 1 = 0 \<and> rd h' (RPtr 0 26) 1 = 0)"
  by code_simp

text \<open>
  With \<^verbatim>\<open>lp = lm\<close>, which is what the loop over \<^verbatim>\<open>beta\<close> always yields, the two
  commutator terms of a pair \<open>(lk, transition)\<close> are equal and cancel: the loops over
  \<^verbatim>\<open>lk\<close> and the transitions leave \<^verbatim>\<open>drho\<close> as it was.
\<close>

lemma connects_sym:
  "nonradiative_connects s l1 l2 = nonradiative_connects s l2 l1"
  "radiative_connects s l1 l2 = radiative_connects s l2 l1"
  by (auto simp: nonradiative_connects_def radiative_connects_def fun_eq_iff)

lemma commutator_term_sym:
  "commutator_term M s X W dt h d c cmp i tr l1 l2 = commutator_term M s X W dt h d c cmp i tr l2 l1"
  unfolding commutator_term_def correspond_nonradiative_transition_def
    correspond_radiative_transition_def
  by (simp only: connects_sym(1)[of s l1 l2] connects_sym(2)[of s l1 l2])

lemma coherence_transition_cancels:
  assumes "lp = lm" and "cc < length drho"
    and "coherence_transition M s X W dt h d c cmp cc i lp lm lk tr drho = Inr drho'"
  shows "drho' = drho"
  using assms commutator_term_sym[of M s X W dt h d c cmp i tr "int lk" lm]
  by (auto simp: coherence_transition_def Let_def list_update_same_conv split: sum.splits if_splits)

subsection \<open>The slicing loops in closed form\<close>





lemma stored_before_Cons:
  "stored_before (x # xs) stored y =
     (if y = x then 0 else (if stored (fst x) (snd x) then 1 else 0) + stored_before xs stored y)"
  by (cases x) (auto simp: stored_before_def)

lemma stored_count_Cons:
  "stored_count (x # xs) stored = (if stored (fst x) (snd x) then 1 else 0) + stored_count xs stored"
  by (cases x) (auto simp: stored_count_def)

lemma stored_before_le: "stored_before xs stored y \<le> stored_count xs stored"
proof (induction xs)
  case Nil
  show ?case by (simp add: stored_before_def stored_count_def)
next
  case (Cons x xs)
  then show ?case by (simp add: stored_before_Cons stored_count_Cons)
qed



subsection \<open>Cloning the internal data\<close>







lemma rebase_canonical_table:
  "map (rebase b) (canonical_table d n nt P0) = canonical_table b n nt P0"
  by (simp add: canonical_table_def)























end
